theory Spec2Isabelle
  imports Main "HOL-Library.AList"
begin

section \<open>JavaScript values and string helpers\<close>

text \<open>
  The two scripts of the repository (\<^verbatim>\<open>subir_mongo_notion.cjs\<close> and
  \<^verbatim>\<open>subir_excel_notion.cjs\<close>) share their reconciliation logic. The development
  follows \<^verbatim>\<open>subir_mongo_notion.cjs\<close>; where the Excel script differs in a way that
  matters, the difference is modelled under a name ending in \<open>_excel\<close>.

  Strings are lists of characters; a character stands for one code unit below 256.
\<close>

text \<open>
  A field value of a source document. The scripts observe a value only through
  \<^verbatim>\<open>=== undefined\<close>, \<^verbatim>\<open>=== null\<close>, \<^verbatim>\<open>=== ""\<close> and \<^verbatim>\<open>String(value)\<close>;
  a value that is neither undefined, null nor a string (a number, a boolean, an
  ObjectId, a date) is carried as \<open>JOther\<close> with the text \<^verbatim>\<open>String\<close> gives for it.
\<close>

datatype jsval = JUndefined | JNull | JString string | JOther string

fun String_js :: "jsval \<Rightarrow> string" where
  "String_js JUndefined = ''undefined''"
| "String_js JNull = ''null''"
| "String_js (JString s) = s"
| "String_js (JOther s) = s"

text \<open>The white space removed by \<^verbatim>\<open>trim\<close> and skipped by \<^verbatim>\<open>parseInt\<close>.\<close>

definition isWhiteSpace :: "char \<Rightarrow> bool" where
  "isWhiteSpace c =
     (c \<in> {CHR '' '', CHR 0x09, CHR 0x0A, CHR 0x0B, CHR 0x0C, CHR 0x0D, CHR 0xA0})"

definition trim :: "string \<Rightarrow> string" where
  "trim s = rev (dropWhile isWhiteSpace (rev (dropWhile isWhiteSpace s)))"

text \<open>
  \<^verbatim>\<open>toLowerCase\<close>, on the letters A to Z. The scripts only compare its result with
  \<^verbatim>\<open>"s"\<close> and \<^verbatim>\<open>"true"\<close>, and no other code unit below 256 lower-cases to a letter
  of these words.
\<close>

definition toLowerChar :: "char \<Rightarrow> char" where
  "toLowerChar c =
     (case map_of (zip ''ABCDEFGHIJKLMNOPQRSTUVWXYZ'' ''abcdefghijklmnopqrstuvwxyz'') c of
        Some l \<Rightarrow> l
      | None \<Rightarrow> c)"

definition toLowerCase :: "string \<Rightarrow> string" where
  "toLowerCase s = map toLowerChar s"

text \<open>\<^verbatim>\<open>s.split(",")\<close>: the empty string gives one empty piece.\<close>

fun split_comma :: "string \<Rightarrow> string list" where
  "split_comma [] = [[]]"
| "split_comma (c # cs) =
     (if c = CHR '','' then [] # split_comma cs
      else (case split_comma cs of
              [] \<Rightarrow> [[c]]
            | w # ws \<Rightarrow> (c # w) # ws))"

text \<open>
  \<^verbatim>\<open>parseInt(s)\<close> without a radix: leading white space, an optional sign, an
  optional \<^verbatim>\<open>0x\<close> prefix, then the longest run of digits; \<open>None\<close> is \<^verbatim>\<open>NaN\<close>.
  The result is the exact integer (the rounding of very long digit runs to a double is
  left out; the scripts only compare the result with small bounds).
\<close>

definition digit_val :: "char \<Rightarrow> nat option" where
  "digit_val c =
     map_of (zip ''0123456789abcdefABCDEF''
                 [0, 1, 2, 3, 4, 5, 6, 7, 8, 9, 10, 11, 12, 13, 14, 15, 10, 11, 12, 13, 14, 15]) c"

fun parse_digits :: "nat \<Rightarrow> string \<Rightarrow> nat option \<Rightarrow> nat option" where
  "parse_digits radix [] acc = acc"
| "parse_digits radix (c # cs) acc =
     (case digit_val c of
        None \<Rightarrow> acc
      | Some d \<Rightarrow>
          if d < radix
          then parse_digits radix cs (Some ((case acc of None \<Rightarrow> 0 | Some a \<Rightarrow> a) * radix + d))
          else acc)"

definition parseInt :: "string \<Rightarrow> int option" where
  "parseInt s =
     (let t = dropWhile isWhiteSpace s;
          neg = (case t of [] \<Rightarrow> False | c # _ \<Rightarrow> c = CHR ''-'');
          u = (case t of [] \<Rightarrow> [] | c # r \<Rightarrow> if c = CHR ''-'' \<or> c = CHR ''+'' then r else t);
          hex = (case u of a # b # _ \<Rightarrow> a = CHR ''0'' \<and> (b = CHR ''x'' \<or> b = CHR ''X'') | _ \<Rightarrow> False);
          digits = (if hex then parse_digits 16 (drop 2 u) None else parse_digits 10 u None)
      in case digits of
           None \<Rightarrow> None
         | Some n \<Rightarrow> Some (if neg then - int n else int n))"

section \<open>Source documents and destination pages\<close>

text \<open>
  A source document (a Mongo document, an Excel row) is an object: its own keys in the
  order of \<^verbatim>\<open>Object.entries\<close>, each key once. \<^verbatim>\<open>doc[field]\<close> of a missing key is
  \<^verbatim>\<open>undefined\<close> (the properties a JavaScript object inherits, such as
  \<^verbatim>\<open>constructor\<close>, are left out: field names are taken not to be among them).
\<close>

type_synonym entry = "(string \<times> jsval) list"

definition get_field :: "entry \<Rightarrow> string \<Rightarrow> jsval" where
  "get_field doc field = (case map_of doc field of None \<Rightarrow> JUndefined | Some v \<Rightarrow> v)"

text \<open>
  A property value of a Notion page, as the object the API returns: the keys that
  \<^verbatim>\<open>getPropertyValue\<close> reads, each \<open>None\<close> when the key is missing or null. A number
  is carried by the text \<^verbatim>\<open>String\<close> gives for it, a select or status by its name, a
  multi-select by the names of its items.
\<close>

record segment =
  plain_text :: string

record notion_property =
  url :: "string option"
  phone_number :: "string option"
  rich_text :: "segment list option"
  title :: "segment list option"
  email :: "string option"
  number :: "string option"
  select :: "string option"
  status :: "string option"
  multi_select :: "string list option"
  checkbox :: "bool option"

record page =
  page_id :: string
  properties :: "string \<rightharpoonup> notion_property"

text \<open>The properties of a database (\<^verbatim>\<open>dbResponse.properties\<close>): name to type.\<close>

type_synonym db_properties = "string \<rightharpoonup> string"

section \<open>Duplicate index\<close>

text \<open>\<^verbatim>\<open>getPropertyValue\<close> of \<^verbatim>\<open>subir_mongo_notion.cjs\<close>.\<close>

definition getPropertyValue :: "notion_property option \<Rightarrow> string option \<Rightarrow> string" where
  "getPropertyValue property type =
     (case property of
        None \<Rightarrow> ''''
      | Some p \<Rightarrow>
          (case type of
             None \<Rightarrow> ''''
           | Some t \<Rightarrow>
               if t = '''' then ''''
               else if t = ''url'' then (case url p of None \<Rightarrow> '''' | Some s \<Rightarrow> s)
               else if t = ''phone_number'' then (case phone_number p of None \<Rightarrow> '''' | Some s \<Rightarrow> s)
               else if t = ''rich_text''
                 then concat (map plain_text (case rich_text p of None \<Rightarrow> [] | Some segs \<Rightarrow> segs))
               else if t = ''title''
                 then concat (map plain_text (case title p of None \<Rightarrow> [] | Some segs \<Rightarrow> segs))
               else ''''))"

text \<open>
  The index \<^verbatim>\<open>existingValuesMap\<close>: for each field a \<^verbatim>\<open>Map\<close> from value to page id
  (the empty map for a field that was given none). \<^verbatim>\<open>Map.set\<close> stores the id under
  the value, whether or not the value is already a key.
\<close>

type_synonym valuesMap = "string \<Rightarrow> (string \<rightharpoonup> string)"

definition emptyValuesMap :: valuesMap where
  "emptyValuesMap = (\<lambda>field. Map.empty)"

text \<open>\<^verbatim>\<open>propertyTypeMap[field] = currentProperties[field]?.type || null\<close>.\<close>

definition propertyTypeMap :: "db_properties \<Rightarrow> string \<Rightarrow> string option" where
  "propertyTypeMap currentProperties field =
     (case currentProperties field of
        None \<Rightarrow> None
      | Some t \<Rightarrow> if t = '''' then None else Some t)"

text \<open>The inner loop of the index construction: one page, every field to check.\<close>

fun fillRecord :: "db_properties \<Rightarrow> page \<Rightarrow> string list \<Rightarrow> valuesMap \<Rightarrow> valuesMap" where
  "fillRecord currentProperties record [] m = m"
| "fillRecord currentProperties record (field # checkFields) m =
     fillRecord currentProperties record checkFields
       (case properties record field of
          None \<Rightarrow> m
        | Some p \<Rightarrow>
            (case propertyTypeMap currentProperties field of
               None \<Rightarrow> m
             | Some t \<Rightarrow>
                 (let v = getPropertyValue (Some p) (Some t)
                  in if v \<noteq> '''' then m(field := (m field)(v \<mapsto> page_id record)) else m)))"

text \<open>The outer loop: every page of \<^verbatim>\<open>allRecords\<close>, in order.\<close>

fun fillExistingValuesMap ::
  "db_properties \<Rightarrow> string list \<Rightarrow> page list \<Rightarrow> valuesMap \<Rightarrow> valuesMap" where
  "fillExistingValuesMap currentProperties checkFields [] m = m"
| "fillExistingValuesMap currentProperties checkFields (record # records) m =
     fillExistingValuesMap currentProperties checkFields records
       (fillRecord currentProperties record checkFields m)"

section \<open>Classification of the source documents\<close>

text \<open>
  The loop over \<^verbatim>\<open>duplicateCheckFields\<close> with its \<^verbatim>\<open>break\<close>: \<open>Some id\<close> is
  \<^verbatim>\<open>isDuplicate = true\<close> with \<^verbatim>\<open>duplicateRecordId = id\<close>, \<open>None\<close> is
  \<^verbatim>\<open>isDuplicate = false\<close>.
\<close>

fun findDuplicate :: "valuesMap \<Rightarrow> string list \<Rightarrow> entry \<Rightarrow> string option" where
  "findDuplicate m [] doc = None"
| "findDuplicate m (field # checkFields) doc =
     (let docValue = get_field doc field
      in if docValue \<noteq> JUndefined \<and> docValue \<noteq> JNull
         then (case m field (String_js docValue) of
                 Some rid \<Rightarrow> Some rid
               | None \<Rightarrow> findDuplicate m checkFields doc)
         else findDuplicate m checkFields doc)"

text \<open>The loop over \<^verbatim>\<open>newProperties\<close> that sets \<^verbatim>\<open>hasNewPropertyValues\<close>.\<close>

fun hasNewPropertyValues :: "string list \<Rightarrow> entry \<Rightarrow> bool" where
  "hasNewPropertyValues [] doc = False"
| "hasNewPropertyValues (prop # props) doc =
     (if get_field doc prop \<noteq> JUndefined \<and> get_field doc prop \<noteq> JNull
         \<and> get_field doc prop \<noteq> JString ''''
      then True
      else hasNewPropertyValues props doc)"

record duplicate =
  recordId :: string
  entry :: entry
  updateOnlyNewProperties :: bool

text \<open>
  The loop over \<^verbatim>\<open>data\<close> that fills \<^verbatim>\<open>duplicatesForUpdate\<close> and
  \<^verbatim>\<open>nonDuplicatesToAdd\<close>.
\<close>

fun separate ::
  "valuesMap \<Rightarrow> string list \<Rightarrow> string \<Rightarrow> string list \<Rightarrow> entry list
     \<Rightarrow> duplicate list \<Rightarrow> entry list \<Rightarrow> duplicate list \<times> entry list" where
  "separate m checkFields duplicateOption newProperties [] duplicatesForUpdate nonDuplicatesToAdd =
     (duplicatesForUpdate, nonDuplicatesToAdd)"
| "separate m checkFields duplicateOption newProperties (doc # data) duplicatesForUpdate nonDuplicatesToAdd =
     (case findDuplicate m checkFields doc of
        Some duplicateRecordId \<Rightarrow>
          if duplicateOption = ''1''
          then separate m checkFields duplicateOption newProperties data
                 duplicatesForUpdate nonDuplicatesToAdd
          else if duplicateOption = ''2''
          then (if hasNewPropertyValues newProperties doc
                then separate m checkFields duplicateOption newProperties data
                       (duplicatesForUpdate @
                          [\<lparr>recordId = duplicateRecordId, entry = doc,
                            updateOnlyNewProperties = True\<rparr>])
                       nonDuplicatesToAdd
                else separate m checkFields duplicateOption newProperties data
                       duplicatesForUpdate nonDuplicatesToAdd)
          else separate m checkFields duplicateOption newProperties data
                 duplicatesForUpdate nonDuplicatesToAdd
      | None \<Rightarrow>
          separate m checkFields duplicateOption newProperties data
            duplicatesForUpdate (nonDuplicatesToAdd @ [doc]))"

section \<open>Payloads\<close>

text \<open>
  \<^verbatim>\<open>selectedProperties\<close>: the mapping from a header to the name and type of its
  Notion property.
\<close>

record mapped_property =
  prop_name :: string
  prop_type :: string

type_synonym selected_properties = "string \<rightharpoonup> mapped_property"

text \<open>
  The payload of one property. \<^verbatim>\<open>parseFloat\<close> is kept as the call it is: the number
  payload carries the string handed to \<^verbatim>\<open>parseFloat\<close>.
\<close>

datatype parsed_number = ParseFloat string

datatype payload =
    PTitle string
  | PFiles string
  | PDate string
  | PCheckbox bool
  | PUrl string
  | PEmail string
  | PPhoneNumber string
  | PNumber parsed_number
  | PSelect string
  | PStatus string
  | PMultiSelect "string list"
  | PRichText string

datatype block = ImageBlock string

definition buildPropertyPayload :: "string \<Rightarrow> string \<Rightarrow> payload" where
  "buildPropertyPayload propertyType stringValue =
     (if propertyType = ''title'' then PTitle stringValue
      else if propertyType = ''files'' then PFiles stringValue
      else if propertyType = ''date'' then PDate stringValue
      else if propertyType = ''checkbox'' then PCheckbox (toLowerCase stringValue = ''true'')
      else if propertyType = ''url'' then PUrl stringValue
      else if propertyType = ''email'' then PEmail stringValue
      else if propertyType = ''phone_number'' then PPhoneNumber stringValue
      else if propertyType = ''number'' then PNumber (ParseFloat stringValue)
      else if propertyType = ''select'' then PSelect stringValue
      else if propertyType = ''status'' then PStatus stringValue
      else if propertyType = ''multi_select'' then PMultiSelect (map trim (split_comma stringValue))
      else PRichText stringValue)"

text \<open>\<^verbatim>\<open>value !== undefined && value !== null ? String(value) : ""\<close>.\<close>

definition stringValue_of :: "jsval \<Rightarrow> string" where
  "stringValue_of v = (if v \<noteq> JUndefined \<and> v \<noteq> JNull then String_js v else [])"

text \<open>
  Errors: a rejection by the Notion API, with its message, and the \<^verbatim>\<open>TypeError\<close> of
  destructuring \<^verbatim>\<open>selectedProperties[header]\<close> when the header has no mapping.
\<close>

datatype error = ApiError string | TypeError

text \<open>
  The \<^verbatim>\<open>properties\<close> object of a page request: property names in insertion order;
  assigning to a name that is already a key replaces its payload in place.
\<close>

type_synonym page_properties = "(string \<times> payload) list"

fun buildPagePayload_loop ::
  "entry \<Rightarrow> selected_properties \<Rightarrow> page_properties \<Rightarrow> block list
     \<Rightarrow> error + (page_properties \<times> block list)" where
  "buildPagePayload_loop [] selectedProperties props children = Inr (props, children)"
| "buildPagePayload_loop ((header, v) # rest) selectedProperties props children =
     (case selectedProperties header of
        None \<Rightarrow> Inl TypeError
      | Some sp \<Rightarrow>
          (let stringValue = stringValue_of v
           in buildPagePayload_loop rest selectedProperties
                (AList.update (prop_name sp) (buildPropertyPayload (prop_type sp) stringValue) props)
                (if prop_type sp = ''files'' \<and> stringValue \<noteq> []
                 then children @ [ImageBlock stringValue] else children)))"

definition buildPagePayload ::
  "entry \<Rightarrow> selected_properties \<Rightarrow> error + (page_properties \<times> block list)" where
  "buildPagePayload e selectedProperties = buildPagePayload_loop e selectedProperties [] []"

section \<open>The Notion client, the console and the keyboard\<close>

text \<open>The requests sent to Notion (all of them name the one database of the run).\<close>

datatype call =
    DatabasesRetrieve
  | DatabasesUpdate "(string \<times> string) list"
  | DatabasesQuery "string option"
  | PagesCreate page_properties "block list"
  | PagesUpdate string page_properties

record query_response =
  results :: "page list"
  has_more :: bool
  next_cursor :: "string option"

text \<open>
  The Notion service: what it answers to a request, given the requests made before it.
  \<open>Inl\<close> is a rejected request (the client throws), with its message.
\<close>

record notion =
  databases_retrieve :: "call list \<Rightarrow> string + db_properties"
  databases_update :: "call list \<Rightarrow> (string \<times> string) list \<Rightarrow> string + unit"
  databases_query :: "call list \<Rightarrow> string option \<Rightarrow> string + query_response"
  pages_create :: "call list \<Rightarrow> page_properties \<Rightarrow> block list \<Rightarrow> string + unit"
  pages_update :: "call list \<Rightarrow> string \<Rightarrow> page_properties \<Rightarrow> string + unit"

text \<open>
  The warnings and errors the scripts print (\<^verbatim>\<open>logWarn\<close>, \<^verbatim>\<open>logError\<close>), one
  constructor for each message; the informative lines and the progress lines are left out.
\<close>

datatype log_line =
    WarnInvalidSelection
  | ErrorEnsureProperties error
  | ErrorUpdateDuplicate error
  | ErrorAddRecord error
  | WarnRetrying
  | ErrorRetry error
  | WarnStillFailed
  | WarnInvalidOption
  | WarnNoValidFields
  | ErrorGeneral error

text \<open>
  The state of a run: the lines still to be typed at the prompts, the warnings and
  errors printed so far, and the requests sent to Notion so far.
\<close>

record io =
  stdin :: "string list"
  console :: "log_line list"
  calls :: "call list"

definition issue :: "call \<Rightarrow> io \<Rightarrow> io" where
  "issue c st = st\<lparr>calls := calls st @ [c]\<rparr>"

definition logLine :: "log_line \<Rightarrow> io \<Rightarrow> io" where
  "logLine l st = st\<lparr>console := console st @ [l]\<rparr>"

text \<open>
  \<^verbatim>\<open>askQuestion\<close>: the next line typed. With no line left the promise never
  resolves: \<open>None\<close>.
\<close>

definition askQuestion :: "io \<Rightarrow> (string \<times> io) option" where
  "askQuestion st =
     (case stdin st of
        [] \<Rightarrow> None
      | answer # rest \<Rightarrow> Some (answer, st\<lparr>stdin := rest\<rparr>))"

section \<open>Property mapper\<close>

definition propertyTypes :: "string list" where
  "propertyTypes =
     [''rich_text'', ''title'', ''number'', ''select'', ''multi_select'',
      ''date'', ''people'', ''files'', ''checkbox'', ''url'', ''email'',
      ''phone_number'', ''formula'', ''relation'', ''rollup'', ''created_time'',
      ''created_by'', ''last_edited_time'', ''last_edited_by'', ''status'']"

text \<open>
  The \<^verbatim>\<open>while (true)\<close> loop of \<^verbatim>\<open>mapProperties\<close> that asks for the number of a
  type until the answer is a number from 1 to the number of types.
\<close>

function typeChoiceLoop :: "io \<Rightarrow> (string \<times> io) option" where
  "typeChoiceLoop st =
     (case askQuestion st of
        None \<Rightarrow> None
      | Some (typeChoice, st1) \<Rightarrow>
          (case parseInt typeChoice of
             None \<Rightarrow> typeChoiceLoop (logLine WarnInvalidSelection st1)
           | Some selectedIndex \<Rightarrow>
               if selectedIndex \<ge> 1 \<and> selectedIndex \<le> int (length propertyTypes)
               then Some (propertyTypes ! nat (selectedIndex - 1), st1)
               else typeChoiceLoop (logLine WarnInvalidSelection st1)))"
  by pat_completeness auto
termination
  by (relation "measure (\<lambda>st. length (stdin st))")
     (auto simp: askQuestion_def logLine_def split: list.splits)

declare typeChoiceLoop.simps [simp del]

text \<open>The body of the loop of \<^verbatim>\<open>mapProperties\<close> for one header.\<close>

definition mapProperty ::
  "string \<Rightarrow> db_properties \<Rightarrow> string \<Rightarrow> string \<Rightarrow> io \<Rightarrow> (mapped_property \<times> io) option" where
  "mapProperty header currentProperties customizationOption titleField st =
     (let propertyName = header;
          propertyType = (if header = titleField then ''title'' else ''rich_text'');
          propertyType = (case currentProperties header of
                            Some t \<Rightarrow> if header \<noteq> titleField then t else propertyType
                          | None \<Rightarrow> propertyType)
      in if customizationOption = ''2''
         then (case askQuestion st of
                 None \<Rightarrow> None
               | Some (newName, st1) \<Rightarrow>
                   (let propertyName = (if trim newName \<noteq> [] then trim newName else propertyName)
                    in case askQuestion st1 of
                         None \<Rightarrow> None
                       | Some (changeType, st2) \<Rightarrow>
                           if toLowerCase (trim changeType) = ''s''
                           then (case typeChoiceLoop st2 of
                                   None \<Rightarrow> None
                                 | Some (chosen, st3) \<Rightarrow>
                                     Some (\<lparr>prop_name = propertyName, prop_type = chosen\<rparr>, st3))
                           else Some (\<lparr>prop_name = propertyName, prop_type = propertyType\<rparr>, st2)))
         else Some (\<lparr>prop_name = propertyName, prop_type = propertyType\<rparr>, st))"

fun mapProperties_loop ::
  "string list \<Rightarrow> db_properties \<Rightarrow> string \<Rightarrow> string \<Rightarrow> selected_properties \<Rightarrow> io
     \<Rightarrow> (selected_properties \<times> io) option" where
  "mapProperties_loop [] currentProperties customizationOption titleField mappedProperties st =
     Some (mappedProperties, st)"
| "mapProperties_loop (header # headers) currentProperties customizationOption titleField
     mappedProperties st =
     (case mapProperty header currentProperties customizationOption titleField st of
        None \<Rightarrow> None
      | Some (mp, st1) \<Rightarrow>
          mapProperties_loop headers currentProperties customizationOption titleField
            (mappedProperties(header \<mapsto> mp)) st1)"

definition mapProperties ::
  "string list \<Rightarrow> db_properties \<Rightarrow> string \<Rightarrow> string \<Rightarrow> io
     \<Rightarrow> (selected_properties \<times> io) option" where
  "mapProperties headers currentProperties customizationOption titleField st =
     mapProperties_loop headers currentProperties customizationOption titleField Map.empty st"

section \<open>Schema synchronizer\<close>

text \<open>
  The loop of \<^verbatim>\<open>ensurePropertiesExist\<close> that fills \<^verbatim>\<open>propertiesToAdd\<close> and
  \<^verbatim>\<open>propertiesToUpdate\<close> (property name to type); a header without a mapping makes the
  destructuring throw.
\<close>

fun propertiesToAdd_loop ::
  "string list \<Rightarrow> selected_properties \<Rightarrow> db_properties
     \<Rightarrow> (string \<times> string) list \<Rightarrow> (string \<times> string) list
     \<Rightarrow> error + ((string \<times> string) list \<times> (string \<times> string) list)" where
  "propertiesToAdd_loop [] selectedProperties currentProperties propertiesToAdd propertiesToUpdate =
     Inr (propertiesToAdd, propertiesToUpdate)"
| "propertiesToAdd_loop (header # headers) selectedProperties currentProperties
     propertiesToAdd propertiesToUpdate =
     (case selectedProperties header of
        None \<Rightarrow> Inl TypeError
      | Some sp \<Rightarrow>
          (case currentProperties (prop_name sp) of
             None \<Rightarrow>
               propertiesToAdd_loop headers selectedProperties currentProperties
                 (AList.update (prop_name sp) (prop_type sp) propertiesToAdd) propertiesToUpdate
           | Some t \<Rightarrow>
               if t \<noteq> prop_type sp
               then propertiesToAdd_loop headers selectedProperties currentProperties
                      propertiesToAdd (AList.update (prop_name sp) (prop_type sp) propertiesToUpdate)
               else propertiesToAdd_loop headers selectedProperties currentProperties
                      propertiesToAdd propertiesToUpdate))"

text \<open>\<^verbatim>\<open>{ ...a, ...b }\<close>.\<close>

definition spread :: "('k \<times> 'v) list \<Rightarrow> ('k \<times> 'v) list \<Rightarrow> ('k \<times> 'v) list" where
  "spread a b = foldl (\<lambda>acc kv. AList.update (fst kv) (snd kv) acc) a b"

text \<open>
  \<^verbatim>\<open>ensurePropertiesExist\<close>. Its whole body is inside \<^verbatim>\<open>try\<close>; the
  \<^verbatim>\<open>catch\<close> prints the error and returns the empty list.
\<close>

definition ensurePropertiesExist ::
  "notion \<Rightarrow> string list \<Rightarrow> selected_properties \<Rightarrow> io \<Rightarrow> string list \<times> io" where
  "ensurePropertiesExist notion headers selectedProperties st =
     (case databases_retrieve notion (calls st) of
        Inl e \<Rightarrow> ([], logLine (ErrorEnsureProperties (ApiError e)) (issue DatabasesRetrieve st))
      | Inr currentProperties \<Rightarrow>
          (let st1 = issue DatabasesRetrieve st
           in case propertiesToAdd_loop headers selectedProperties currentProperties [] [] of
                Inl e \<Rightarrow> ([], logLine (ErrorEnsureProperties e) st1)
              | Inr (propertiesToAdd, propertiesToUpdate) \<Rightarrow>
                  (let newProps = map fst propertiesToAdd
                   in if length propertiesToAdd > 0 \<or> length propertiesToUpdate > 0
                      then (case databases_update notion (calls st1)
                                   (spread propertiesToAdd propertiesToUpdate) of
                              Inl e \<Rightarrow>
                                ([], logLine (ErrorEnsureProperties (ApiError e))
                                       (issue (DatabasesUpdate (spread propertiesToAdd propertiesToUpdate)) st1))
                            | Inr _ \<Rightarrow>
                                (newProps,
                                 issue (DatabasesUpdate (spread propertiesToAdd propertiesToUpdate)) st1))
                      else (newProps, st1))))"

section \<open>Record writer\<close>

text \<open>
  The inner loop of \<^verbatim>\<open>updateDuplicateRecords\<close> that fills \<^verbatim>\<open>propertiesToUpdate\<close>
  for one duplicate.
\<close>

fun propertiesToUpdate_loop ::
  "entry \<Rightarrow> bool \<Rightarrow> string list \<Rightarrow> selected_properties \<Rightarrow> page_properties
     \<Rightarrow> error + page_properties" where
  "propertiesToUpdate_loop [] onlyNew newProperties selectedProperties props = Inr props"
| "propertiesToUpdate_loop ((header, v) # rest) onlyNew newProperties selectedProperties props =
     (if onlyNew \<and> header \<notin> set newProperties
      then propertiesToUpdate_loop rest onlyNew newProperties selectedProperties props
      else (case selectedProperties header of
              None \<Rightarrow> Inl TypeError
            | Some sp \<Rightarrow>
                propertiesToUpdate_loop rest onlyNew newProperties selectedProperties
                  (AList.update (prop_name sp)
                     (buildPropertyPayload (prop_type sp) (stringValue_of v)) props)))"

text \<open>
  \<^verbatim>\<open>updateDuplicateRecords\<close>: one \<^verbatim>\<open>pages.update\<close> for each duplicate; a rejected
  request is printed and the loop goes on. The payload is built outside \<^verbatim>\<open>try\<close>.
\<close>

fun updateDuplicateRecords ::
  "notion \<Rightarrow> duplicate list \<Rightarrow> selected_properties \<Rightarrow> string list \<Rightarrow> io
     \<Rightarrow> (error + unit) \<times> io" where
  "updateDuplicateRecords notion [] selectedProperties newProperties st = (Inr (), st)"
| "updateDuplicateRecords notion (d # duplicatesToUpdate) selectedProperties newProperties st =
     (case propertiesToUpdate_loop (entry d) (updateOnlyNewProperties d) newProperties
             selectedProperties [] of
        Inl e \<Rightarrow> (Inl e, st)
      | Inr propertiesToUpdate \<Rightarrow>
          (case pages_update notion (calls st) (recordId d) propertiesToUpdate of
             Inl e \<Rightarrow>
               updateDuplicateRecords notion duplicatesToUpdate selectedProperties newProperties
                 (logLine (ErrorUpdateDuplicate (ApiError e))
                    (issue (PagesUpdate (recordId d) propertiesToUpdate) st))
           | Inr _ \<Rightarrow>
               updateDuplicateRecords notion duplicatesToUpdate selectedProperties newProperties
                 (issue (PagesUpdate (recordId d) propertiesToUpdate) st)))"

text \<open>
  The first loop of \<^verbatim>\<open>addNonDuplicateRecords\<close>: one \<^verbatim>\<open>pages.create\<close> for each
  record; a record whose request is rejected is pushed on \<^verbatim>\<open>failedRecords\<close>.
\<close>

fun createRecords ::
  "notion \<Rightarrow> entry list \<Rightarrow> selected_properties \<Rightarrow> entry list \<Rightarrow> io
     \<Rightarrow> (error + entry list) \<times> io" where
  "createRecords notion [] selectedProperties failedRecords st = (Inr failedRecords, st)"
| "createRecords notion (e # recordsToAdd) selectedProperties failedRecords st =
     (case buildPagePayload e selectedProperties of
        Inl err \<Rightarrow> (Inl err, st)
      | Inr (props, children) \<Rightarrow>
          (case pages_create notion (calls st) props children of
             Inl err \<Rightarrow>
               createRecords notion recordsToAdd selectedProperties (failedRecords @ [e])
                 (logLine (ErrorAddRecord (ApiError err)) (issue (PagesCreate props children) st))
           | Inr _ \<Rightarrow>
               createRecords notion recordsToAdd selectedProperties failedRecords
                 (issue (PagesCreate props children) st)))"

text \<open>
  The second loop, over \<^verbatim>\<open>failedRecords\<close>: one more \<^verbatim>\<open>pages.create\<close> for each;
  a record rejected again is pushed on \<^verbatim>\<open>stillFailedRecords\<close>.
\<close>

fun retryRecords ::
  "notion \<Rightarrow> entry list \<Rightarrow> selected_properties \<Rightarrow> entry list \<Rightarrow> io
     \<Rightarrow> (error + entry list) \<times> io" where
  "retryRecords notion [] selectedProperties stillFailedRecords st = (Inr stillFailedRecords, st)"
| "retryRecords notion (e # failedRecords) selectedProperties stillFailedRecords st =
     (case buildPagePayload e selectedProperties of
        Inl err \<Rightarrow> (Inl err, st)
      | Inr (props, children) \<Rightarrow>
          (case pages_create notion (calls st) props children of
             Inl err \<Rightarrow>
               retryRecords notion failedRecords selectedProperties (stillFailedRecords @ [e])
                 (logLine (ErrorRetry (ApiError err)) (issue (PagesCreate props children) st))
           | Inr _ \<Rightarrow>
               retryRecords notion failedRecords selectedProperties stillFailedRecords
                 (issue (PagesCreate props children) st)))"

definition addNonDuplicateRecords ::
  "notion \<Rightarrow> entry list \<Rightarrow> selected_properties \<Rightarrow> io \<Rightarrow> (error + unit) \<times> io" where
  "addNonDuplicateRecords notion recordsToAdd selectedProperties st =
     (case createRecords notion recordsToAdd selectedProperties [] st of
        (Inl err, st1) \<Rightarrow> (Inl err, st1)
      | (Inr failedRecords, st1) \<Rightarrow>
          if length failedRecords > 0
          then (case retryRecords notion failedRecords selectedProperties []
                       (logLine WarnRetrying st1) of
                  (Inl err, st2) \<Rightarrow> (Inl err, st2)
                | (Inr stillFailedRecords, st2) \<Rightarrow>
                    if length stillFailedRecords > 0
                    then (Inr (), logLine WarnStillFailed st2)
                    else (Inr (), st2))
          else (Inr (), st1))"

section \<open>Orchestrator\<close>

text \<open>
  The \<^verbatim>\<open>while (hasMore)\<close> loop of \<^verbatim>\<open>fetchAllRecords\<close>. It ends when Notion
  answers \<^verbatim>\<open>has_more = false\<close> or rejects a request; \<open>None\<close> is a loop that never ends.
\<close>

partial_function (option) fetchAllRecords_loop ::
  "notion \<Rightarrow> page list \<Rightarrow> string option \<Rightarrow> io \<Rightarrow> ((error + page list) \<times> io) option" where
  "fetchAllRecords_loop notion allRecords startCursor st =
     (case databases_query notion (calls st) startCursor of
        Inl e \<Rightarrow> Some (Inl (ApiError e), issue (DatabasesQuery startCursor) st)
      | Inr response \<Rightarrow>
          if has_more response
          then fetchAllRecords_loop notion (allRecords @ results response)
                 (next_cursor response) (issue (DatabasesQuery startCursor) st)
          else Some (Inr (allRecords @ results response),
                     issue (DatabasesQuery startCursor) st))"

definition fetchAllRecords :: "notion \<Rightarrow> io \<Rightarrow> ((error + page list) \<times> io) option" where
  "fetchAllRecords notion st = fetchAllRecords_loop notion [] None st"

text \<open>
  \<^verbatim>\<open>exportToNotion\<close>. A thrown error leaves the function (\<open>Inl\<close>); \<open>None\<close> is a
  run that never leaves \<^verbatim>\<open>fetchAllRecords\<close>.
\<close>

definition exportToNotion ::
  "notion \<Rightarrow> entry list \<Rightarrow> selected_properties \<Rightarrow> string list \<Rightarrow> string \<Rightarrow> string list
     \<Rightarrow> io \<Rightarrow> ((error + unit) \<times> io) option" where
  "exportToNotion notion data selectedProperties duplicateCheckFields duplicateOption
     newProperties st =
     (if duplicateOption = ''3''
      then Some (addNonDuplicateRecords notion data selectedProperties st)
      else
        (case fetchAllRecords notion st of
           None \<Rightarrow> None
         | Some (Inl e, st1) \<Rightarrow> Some (Inl e, st1)
         | Some (Inr allRecords, st1) \<Rightarrow>
             (case databases_retrieve notion (calls st1) of
                Inl e \<Rightarrow> Some (Inl (ApiError e), issue DatabasesRetrieve st1)
              | Inr currentProperties \<Rightarrow>
                  (let st2 = issue DatabasesRetrieve st1;
                       existingValuesMap =
                         fillExistingValuesMap currentProperties duplicateCheckFields allRecords
                           emptyValuesMap;
                       (duplicatesForUpdate, nonDuplicatesToAdd) =
                         separate existingValuesMap duplicateCheckFields duplicateOption
                           newProperties data [] []
                   in case (if duplicateOption = ''2'' \<and> length duplicatesForUpdate > 0
                            then updateDuplicateRecords notion duplicatesForUpdate
                                   selectedProperties newProperties st2
                            else (Inr (), st2)) of
                        (Inl e, st3) \<Rightarrow> Some (Inl e, st3)
                      | (Inr _, st3) \<Rightarrow>
                          if length nonDuplicatesToAdd > 0
                          then Some (addNonDuplicateRecords notion nonDuplicatesToAdd
                                       selectedProperties st3)
                          else Some (Inr (), st3)))))"

text \<open>
  The two \<^verbatim>\<open>while (true)\<close> loops of \<^verbatim>\<open>main\<close> that ask for an option until the
  trimmed answer is one of the allowed ones. The answer is kept as it was typed.
\<close>

function optionLoop :: "string list \<Rightarrow> io \<Rightarrow> (string \<times> io) option" where
  "optionLoop allowed st =
     (case askQuestion st of
        None \<Rightarrow> None
      | Some (answer, st1) \<Rightarrow>
          if trim answer \<in> set allowed then Some (answer, st1)
          else optionLoop allowed (logLine WarnInvalidOption st1))"
  by pat_completeness auto
termination
  by (relation "measure (\<lambda>(allowed, st). length (stdin st))")
     (auto simp: askQuestion_def logLine_def split: list.splits)

declare optionLoop.simps [simp del]

text \<open>
  Step 11 of \<^verbatim>\<open>main\<close>: the fields to check for duplicates, and the option, forced
  to \<^verbatim>\<open>"3"\<close> when no field is left.
\<close>

definition askDuplicateCheckFields ::
  "string list \<Rightarrow> string \<Rightarrow> io \<Rightarrow> ((string list \<times> string) \<times> io) option" where
  "askDuplicateCheckFields headers duplicateOption st =
     (if duplicateOption = ''1'' \<or> duplicateOption = ''2''
      then (case askQuestion st of
              None \<Rightarrow> None
            | Some (answer, st1) \<Rightarrow>
                (let duplicateCheckFields =
                       filter (\<lambda>f. f \<noteq> []) (map trim (split_comma answer));
                     duplicateCheckFields =
                       filter (\<lambda>f. f \<in> set headers) duplicateCheckFields
                 in if length duplicateCheckFields = 0
                    then Some (([], ''3''), logLine WarnNoValidFields st1)
                    else Some ((duplicateCheckFields, duplicateOption), st1)))
      else Some (([], duplicateOption), st))"

text \<open>
  Steps 12 to 17 of \<^verbatim>\<open>main\<close>. An error thrown on the way is caught by the
  \<^verbatim>\<open>catch\<close> of \<^verbatim>\<open>main\<close>, which prints it.
\<close>

definition mainExport ::
  "notion \<Rightarrow> entry list \<Rightarrow> string list \<Rightarrow> string \<Rightarrow> string list \<Rightarrow> string \<Rightarrow> io \<Rightarrow> io option" where
  "mainExport notion data headers titleField duplicateCheckFields duplicateOption st =
     (case databases_retrieve notion (calls st) of
        Inl e \<Rightarrow> Some (logLine (ErrorGeneral (ApiError e)) (issue DatabasesRetrieve st))
      | Inr currentProperties \<Rightarrow>
          (case optionLoop [''1'', ''2''] (issue DatabasesRetrieve st) of
             None \<Rightarrow> None
           | Some (mapOption, st1) \<Rightarrow>
               (case mapProperties headers currentProperties mapOption titleField st1 of
                  None \<Rightarrow> None
                | Some (selectedProperties, st2) \<Rightarrow>
                    (case ensurePropertiesExist notion headers selectedProperties st2 of
                       (newProperties, st3) \<Rightarrow>
                         (case exportToNotion notion data selectedProperties duplicateCheckFields
                                 duplicateOption newProperties st3 of
                            None \<Rightarrow> None
                          | Some (Inl e, st4) \<Rightarrow> Some (logLine (ErrorGeneral e) st4)
                          | Some (Inr _, st4) \<Rightarrow> Some st4)))))"

text \<open>
  \<^verbatim>\<open>main\<close> from step 10 on. The documents \<^verbatim>\<open>data\<close>, their \<^verbatim>\<open>headers\<close> and the
  \<^verbatim>\<open>titleField\<close> are what steps 1 to 9 have read from Mongo and from the keyboard.
  The result is the state when \<^verbatim>\<open>main\<close> returns; \<open>None\<close> is a run that never
  returns (a prompt without an answer, a listing that never ends).
\<close>

definition main :: "notion \<Rightarrow> entry list \<Rightarrow> string list \<Rightarrow> string \<Rightarrow> io \<Rightarrow> io option" where
  "main notion data headers titleField st =
     (case optionLoop [''1'', ''2'', ''3''] st of
        None \<Rightarrow> None
      | Some (duplicateOption, st1) \<Rightarrow>
          (case askDuplicateCheckFields headers duplicateOption st1 of
             None \<Rightarrow> None
           | Some ((duplicateCheckFields, duplicateOption), st2) \<Rightarrow>
               mainExport notion data headers titleField duplicateCheckFields duplicateOption st2))"

section \<open>The Excel script's value extraction\<close>

text \<open>
  \<^verbatim>\<open>getPropertyValue\<close> of \<^verbatim>\<open>subir_excel_notion.cjs\<close>: six more types than the
  Mongo script. For \<^verbatim>\<open>multi_select\<close> it calls \<^verbatim>\<open>map\<close> on the property's list with
  no default, which throws when the key is missing.
\<close>

fun join_comma :: "string list \<Rightarrow> string" where
  "join_comma [] = []"
| "join_comma [x] = x"
| "join_comma (x # y # ys) = x @ '','' @ join_comma (y # ys)"

definition getPropertyValue_excel ::
  "notion_property option \<Rightarrow> string option \<Rightarrow> error + string" where
  "getPropertyValue_excel property type =
     (case property of
        None \<Rightarrow> Inr []
      | Some p \<Rightarrow>
          (case type of
             None \<Rightarrow> Inr []
           | Some t \<Rightarrow>
               if t = [] then Inr []
               else if t = ''url'' then Inr (case url p of None \<Rightarrow> [] | Some s \<Rightarrow> s)
               else if t = ''phone_number''
                 then Inr (case phone_number p of None \<Rightarrow> [] | Some s \<Rightarrow> s)
               else if t = ''rich_text''
                 then Inr (concat (map plain_text (case rich_text p of None \<Rightarrow> [] | Some segs \<Rightarrow> segs)))
               else if t = ''title''
                 then Inr (concat (map plain_text (case title p of None \<Rightarrow> [] | Some segs \<Rightarrow> segs)))
               else if t = ''email'' then Inr (case email p of None \<Rightarrow> [] | Some s \<Rightarrow> s)
               else if t = ''number'' then Inr (case number p of None \<Rightarrow> [] | Some s \<Rightarrow> s)
               else if t = ''select'' then Inr (case select p of None \<Rightarrow> [] | Some s \<Rightarrow> s)
               else if t = ''status'' then Inr (case status p of None \<Rightarrow> [] | Some s \<Rightarrow> s)
               else if t = ''multi_select''
                 then (case multi_select p of
                         None \<Rightarrow> Inl TypeError
                       | Some items \<Rightarrow> Inr (join_comma items))
               else if t = ''checkbox''
                 then Inr (if checkbox p = Some True then ''true'' else ''false'')
               else Inr []))"

section \<open>Notions used to state the properties\<close>

text \<open>The headers that a mapping gives the type \<^verbatim>\<open>title\<close>.\<close>

definition titleHeaders :: "string list \<Rightarrow> selected_properties \<Rightarrow> string list" where
  "titleHeaders headers selectedProperties =
     filter (\<lambda>h. map_option prop_type (selectedProperties h) = Some ''title'') headers"

text \<open>A value that is there: not undefined, not null, not the empty string.\<close>

definition hasValue :: "jsval \<Rightarrow> bool" where
  "hasValue v = (v \<noteq> JUndefined \<and> v \<noteq> JNull \<and> v \<noteq> JString [])"

text \<open>
  A key field hits for a document: the document's value for it is neither undefined nor
  null, and the text of the value is a key of the field's index.
\<close>

definition keyFieldHit :: "valuesMap \<Rightarrow> entry \<Rightarrow> string \<Rightarrow> bool" where
  "keyFieldHit m doc field =
     (get_field doc field \<noteq> JUndefined \<and> get_field doc field \<noteq> JNull
      \<and> m field (String_js (get_field doc field)) \<noteq> None)"

text \<open>The last page of a list whose extracted value for a field is a given text.\<close>

definition lastWithValue :: "db_properties \<Rightarrow> string \<Rightarrow> string \<Rightarrow> page list \<Rightarrow> page option" where
  "lastWithValue currentProperties field v records =
     (case filter (\<lambda>r. getPropertyValue (properties r field)
                          (propertyTypeMap currentProperties field) = v) records of
        [] \<Rightarrow> None
      | r # rs \<Rightarrow> Some (last (r # rs)))"

text \<open>The request that creates the page of a document, when its payload can be built.\<close>

definition createRequest :: "selected_properties \<Rightarrow> entry \<Rightarrow> call option" where
  "createRequest selectedProperties e =
     (case buildPagePayload e selectedProperties of
        Inl _ \<Rightarrow> None
      | Inr (props, children) \<Rightarrow> Some (PagesCreate props children))"

text \<open>The request that updates the page of a duplicate, when its payload can be built.\<close>

definition updateRequest :: "selected_properties \<Rightarrow> string list \<Rightarrow> duplicate \<Rightarrow> call option" where
  "updateRequest selectedProperties newProperties d =
     (case propertiesToUpdate_loop (entry d) (updateOnlyNewProperties d) newProperties
             selectedProperties [] of
        Inl _ \<Rightarrow> None
      | Inr props \<Rightarrow> Some (PagesUpdate (recordId d) props))"

text \<open>
  The message with which Notion rejects a page request made after the requests of
  \<open>history\<close>; \<open>None\<close> when it accepts the request.
\<close>

definition rejection :: "notion \<Rightarrow> call list \<Rightarrow> call \<Rightarrow> string option" where
  "rejection notion history c =
     (case c of
        PagesCreate props children \<Rightarrow>
          (case pages_create notion history props children of Inl e \<Rightarrow> Some e | Inr _ \<Rightarrow> None)
      | PagesUpdate rid props \<Rightarrow>
          (case pages_update notion history rid props of Inl e \<Rightarrow> Some e | Inr _ \<Rightarrow> None)
      | _ \<Rightarrow> None)"

text \<open>
  When the requests of a list are sent one after the other, after the requests of
  \<open>history\<close>: the positions of those that Notion rejects, and the messages.
\<close>

definition rejectedAt :: "notion \<Rightarrow> call list \<Rightarrow> call list \<Rightarrow> nat \<Rightarrow> string option" where
  "rejectedAt notion history requests i =
     rejection notion (history @ take i requests) (requests ! i)"

definition rejectedIndices :: "notion \<Rightarrow> call list \<Rightarrow> call list \<Rightarrow> nat list" where
  "rejectedIndices notion history requests =
     filter (\<lambda>i. rejectedAt notion history requests i \<noteq> None) [0..<length requests]"

definition rejectionMessages :: "notion \<Rightarrow> call list \<Rightarrow> call list \<Rightarrow> string list" where
  "rejectionMessages notion history requests =
     concat (map (\<lambda>i. case rejectedAt notion history requests i of None \<Rightarrow> [] | Some e \<Rightarrow> [e])
               [0..<length requests])"

fun isPagesCreate :: "call \<Rightarrow> bool" where
  "isPagesCreate (PagesCreate props children) = True"
| "isPagesCreate _ = False"

fun isDatabasesQuery :: "call \<Rightarrow> bool" where
  "isDatabasesQuery (DatabasesQuery cursor) = True"
| "isDatabasesQuery _ = False"

text \<open>The first page of a list whose extracted value for a field is a given text.\<close>

definition firstWithValue :: "db_properties \<Rightarrow> string \<Rightarrow> string \<Rightarrow> page list \<Rightarrow> page option" where
  "firstWithValue currentProperties field v records =
     find (\<lambda>r. getPropertyValue (properties r field)
                  (propertyTypeMap currentProperties field) = v) records"

text \<open>What one document adds to \<^verbatim>\<open>duplicatesForUpdate\<close>.\<close>

definition toUpdate ::
  "valuesMap \<Rightarrow> string list \<Rightarrow> string \<Rightarrow> string list \<Rightarrow> entry \<Rightarrow> duplicate list" where
  "toUpdate m checkFields duplicateOption newProperties doc =
     (case findDuplicate m checkFields doc of
        None \<Rightarrow> []
      | Some rid \<Rightarrow>
          if duplicateOption = ''2'' \<and> hasNewPropertyValues newProperties doc
          then [\<lparr>recordId = rid, entry = doc, updateOnlyNewProperties = True\<rparr>]
          else [])"

text \<open>
  The last field of a document whose property name under a mapping is \<open>n\<close>, and the
  payload a field gets from its mapping.
\<close>

definition lastFieldFor :: "selected_properties \<Rightarrow> entry \<Rightarrow> string \<Rightarrow> (string \<times> jsval) option" where
  "lastFieldFor selectedProperties e n =
     (case filter (\<lambda>hv. map_option prop_name (selectedProperties (fst hv)) = Some n) e of
        [] \<Rightarrow> None
      | x # xs \<Rightarrow> Some (last (x # xs)))"


text \<open>
  The type a header gets before any customization: \<^verbatim>\<open>title\<close> for the title field,
  else the type of the database property of the same name when there is one, else
  \<^verbatim>\<open>rich_text\<close>.
\<close>

definition defaultType :: "db_properties \<Rightarrow> string \<Rightarrow> string \<Rightarrow> string" where
  "defaultType currentProperties titleField header =
     (if header = titleField then ''title''
      else (case currentProperties header of None \<Rightarrow> ''rich_text'' | Some t \<Rightarrow> t))"

text \<open>
  The overrides a customization gives for one header, read from the keyboard as the
  prompts of \<^verbatim>\<open>mapProperties\<close> read them: the new name when the first answer is not
  blank, and the type chosen when the second answer is \<^verbatim>\<open>s\<close>. \<open>None\<close> is a prompt
  that is never answered.
\<close>

definition readOverride :: "io \<Rightarrow> ((string option \<times> string option) \<times> io) option" where
  "readOverride st =
     (case askQuestion st of
        None \<Rightarrow> None
      | Some (newName, st1) \<Rightarrow>
          (case askQuestion st1 of
             None \<Rightarrow> None
           | Some (changeType, st2) \<Rightarrow>
               if toLowerCase (trim changeType) = ''s''
               then (case typeChoiceLoop st2 of
                       None \<Rightarrow> None
                     | Some (chosen, st3) \<Rightarrow>
                         Some ((if trim newName \<noteq> [] then Some (trim newName) else None,
                                Some chosen), st3))
               else Some ((if trim newName \<noteq> [] then Some (trim newName) else None, None),
                          st2)))"

text \<open>
  The type overrides of a run: for each header, in order, the type chosen for it, if
  any (for a header listed twice, what is chosen at its last listing). Without
  customization there is none.
\<close>

fun typeOverrides_loop ::
  "string list \<Rightarrow> (string \<rightharpoonup> string) \<Rightarrow> io \<Rightarrow> ((string \<rightharpoonup> string) \<times> io) option" where
  "typeOverrides_loop [] chosen st = Some (chosen, st)"
| "typeOverrides_loop (header # headers) chosen st =
     (case readOverride st of
        None \<Rightarrow> None
      | Some (ov, st1) \<Rightarrow> typeOverrides_loop headers (chosen(header := snd ov)) st1)"

definition typeOverrides ::
  "string list \<Rightarrow> string \<Rightarrow> io \<Rightarrow> ((string \<rightharpoonup> string) \<times> io) option" where
  "typeOverrides headers customizationOption st =
     (if customizationOption = ''2'' then typeOverrides_loop headers Map.empty st
      else Some (Map.empty, st))"

text \<open>The type of a header under type overrides: the type chosen, else the default.\<close>

definition finalType :: "db_properties \<Rightarrow> string \<Rightarrow> (string \<rightharpoonup> string) \<Rightarrow> string \<Rightarrow> string" where
  "finalType currentProperties titleField chosen header =
     (case chosen header of
        None \<Rightarrow> defaultType currentProperties titleField header
      | Some t \<Rightarrow> t)"

section \<open>Example inputs\<close>

text \<open>A page property that holds only a URL, and one that holds only a text.\<close>

definition urlProperty :: "string \<Rightarrow> notion_property" where
  "urlProperty s =
     \<lparr>url = Some s, phone_number = None, rich_text = None, title = None, email = None,
      number = None, select = None, status = None, multi_select = None, checkbox = None\<rparr>"

definition textProperty :: "string list \<Rightarrow> notion_property" where
  "textProperty pieces =
     \<lparr>url = None, phone_number = None,
      rich_text = Some (map (\<lambda>s. \<lparr>plain_text = s\<rparr>) pieces),
      title = None, email = None,
      number = None, select = None, status = None, multi_select = None, checkbox = None\<rparr>"

text \<open>A database with a URL property \<^verbatim>\<open>link\<close>, and two pages with the same link.\<close>

definition linkSchema :: db_properties where
  "linkSchema = [''link'' \<mapsto> ''url'']"

definition twoPagesSameLink :: "page list" where
  "twoPagesSameLink =
     [\<lparr>page_id = ''A'', properties = [''link'' \<mapsto> urlProperty ''http://x'']\<rparr>,
      \<lparr>page_id = ''B'', properties = [''link'' \<mapsto> urlProperty ''http://x'']\<rparr>]"

text \<open>A run that has not started: nothing typed, nothing printed, nothing sent.\<close>

definition idle :: io where
  "idle = \<lparr>stdin = [], console = [], calls = []\<rparr>"

text \<open>The mapping of the one header \<^verbatim>\<open>name\<close> to the title property \<^verbatim>\<open>Name\<close>.\<close>

definition nameMapping :: selected_properties where
  "nameMapping = [''name'' \<mapsto> \<lparr>prop_name = ''Name'', prop_type = ''title''\<rparr>]"

definition threeRecords :: "entry list" where
  "threeRecords =
     [[(''name'', JString ''Alice'')], [(''name'', JString ''Bob'')], [(''name'', JString ''Bad'')]]"

definition twoDuplicates :: "duplicate list" where
  "twoDuplicates =
     [\<lparr>recordId = ''P1'', entry = [(''name'', JString ''Alice'')], updateOnlyNewProperties = True\<rparr>,
      \<lparr>recordId = ''P2'', entry = [(''name'', JString ''Bob'')], updateOnlyNewProperties = True\<rparr>]"

text \<open>
  A Notion service that is busy at the very first request, never accepts the page
  \<^verbatim>\<open>Bad\<close>, and never accepts an update of the page \<^verbatim>\<open>P2\<close>.
\<close>

definition flakyNotion :: notion where
  "flakyNotion =
     \<lparr>databases_retrieve = (\<lambda>history. Inr Map.empty),
      databases_update = (\<lambda>history props. Inr ()),
      databases_query = (\<lambda>history cursor. Inr \<lparr>results = [], has_more = False, next_cursor = None\<rparr>),
      pages_create = (\<lambda>history props children.
         if props = [(''Name'', PTitle ''Bad'')] then Inl ''validation_error''
         else if history = [] then Inl ''busy'' else Inr ()),
      pages_update = (\<lambda>history rid props. if rid = ''P2'' then Inl ''conflict'' else Inr ())\<rparr>"



text \<open>
  An index with one page known by its e-mail and two by their phone, one of which has
  the text \<^verbatim>\<open>null\<close> as its phone.
\<close>

definition contactIndex :: valuesMap where
  "contactIndex =
     emptyValuesMap
       (''email'' := [''a@x.com'' \<mapsto> ''P1''],
        ''phone'' := [''555'' \<mapsto> ''P2'', ''null'' \<mapsto> ''P3''])"

definition aliceDoc :: entry where
  "aliceDoc =
     [(''name'', JString ''Alice''), (''email'', JString ''a@x.com''),
      (''phone'', JString ''555''), (''fax'', JNull), (''city'', JString ''Rome'')]"

definition bobDoc :: entry where
  "bobDoc = [(''name'', JString ''Bob''), (''email'', JString ''b@x.com''), (''phone'', JNull)]"

definition contactMapping :: selected_properties where
  "contactMapping =
     [''name'' \<mapsto> \<lparr>prop_name = ''Name'', prop_type = ''title''\<rparr>,
      ''email'' \<mapsto> \<lparr>prop_name = ''email'', prop_type = ''email''\<rparr>,
      ''phone'' \<mapsto> \<lparr>prop_name = ''phone'', prop_type = ''phone_number''\<rparr>,
      ''fax'' \<mapsto> \<lparr>prop_name = ''fax'', prop_type = ''phone_number''\<rparr>,
      ''city'' \<mapsto> \<lparr>prop_name = ''city'', prop_type = ''rich_text''\<rparr>]"

text \<open>
  A database whose property \<^verbatim>\<open>mail\<close> has the type \<^verbatim>\<open>email\<close> and whose property
  \<^verbatim>\<open>note\<close> is a text, a page of it, and a document with the same e-mail and note.
\<close>

definition mailSchema :: db_properties where
  "mailSchema = [''mail'' \<mapsto> ''email'', ''note'' \<mapsto> ''rich_text'']"

definition mailProperty :: "string \<Rightarrow> notion_property" where
  "mailProperty s =
     \<lparr>url = None, phone_number = None, rich_text = None, title = None, email = Some s,
      number = None, select = None, status = None, multi_select = None, checkbox = None\<rparr>"

definition mailPage :: page where
  "mailPage =
     \<lparr>page_id = ''M1'',
      properties = [''mail'' \<mapsto> mailProperty ''a@x.com'',
                    ''note'' \<mapsto> textProperty [''Hello, '', ''world'']]\<rparr>"

definition mailDoc :: entry where
  "mailDoc = [(''mail'', JString ''a@x.com''), (''note'', JString ''Hello, world'')]"

text \<open>Two headers, and a database that already has a title property \<^verbatim>\<open>email\<close>.\<close>

definition twoHeaders :: "string list" where
  "twoHeaders = [''name'', ''email'']"

definition emailTitleSchema :: db_properties where
  "emailTitleSchema = [''email'' \<mapsto> ''title'']"

definition typing :: "string list \<Rightarrow> io" where
  "typing answers = \<lparr>stdin = answers, console = [], calls = []\<rparr>"

text \<open>
  A Notion service with an empty database that rejects every change of the schema and
  accepts everything else, and one document.
\<close>

definition rejectingSchemaNotion :: notion where
  "rejectingSchemaNotion =
     \<lparr>databases_retrieve = (\<lambda>history. Inr Map.empty),
      databases_update = (\<lambda>history props. Inl ''validation_error''),
      databases_query = (\<lambda>history cursor. Inr \<lparr>results = [], has_more = False, next_cursor = None\<rparr>),
      pages_create = (\<lambda>history props children. Inr ()),
      pages_update = (\<lambda>history rid props. Inr ())\<rparr>"

definition aliceOnly :: "entry list" where
  "aliceOnly = [[(''name'', JString ''Alice'')]]"

text \<open>A Notion service with an empty database that accepts everything.\<close>

definition acceptingNotion :: notion where
  "acceptingNotion =
     \<lparr>databases_retrieve = (\<lambda>history. Inr Map.empty),
      databases_update = (\<lambda>history props. Inr ()),
      databases_query = (\<lambda>history cursor. Inr \<lparr>results = [], has_more = False, next_cursor = None\<rparr>),
      pages_create = (\<lambda>history props children. Inr ()),
      pages_update = (\<lambda>history rid props. Inr ())\<rparr>"

text \<open>
  A Notion service whose database has a phone property and two pages, listed one per
  answer of the query: the page \<open>P1\<close> first, with more to come, then the page \<open>P2\<close>.
\<close>

definition phoneProperty :: "string \<Rightarrow> notion_property" where
  "phoneProperty s =
     \<lparr>url = None, phone_number = Some s, rich_text = None, title = None, email = None,
      number = None, select = None, status = None, multi_select = None, checkbox = None\<rparr>"

definition phoneSchema :: db_properties where
  "phoneSchema = [''phone'' \<mapsto> ''phone_number'']"

definition pageP1 :: page where
  "pageP1 = \<lparr>page_id = ''P1'', properties = [''phone'' \<mapsto> phoneProperty ''111'']\<rparr>"

definition pageP2 :: page where
  "pageP2 = \<lparr>page_id = ''P2'', properties = [''phone'' \<mapsto> phoneProperty ''555'']\<rparr>"

definition contactsNotion :: notion where
  "contactsNotion =
     \<lparr>databases_retrieve = (\<lambda>history. Inr phoneSchema),
      databases_update = (\<lambda>history props. Inr ()),
      databases_query = (\<lambda>history cursor.
         if cursor = None
         then Inr \<lparr>results = [pageP1], has_more = True, next_cursor = Some ''c1''\<rparr>
         else Inr \<lparr>results = [pageP2], has_more = False, next_cursor = None\<rparr>),
      pages_create = (\<lambda>history props children. Inr ()),
      pages_update = (\<lambda>history rid props. Inr ())\<rparr>"

definition daveDoc :: entry where
  "daveDoc = [(''name'', JString ''Dave''), (''phone'', JString ''555''), (''city'', JNull)]"

section \<open>Properties of the duplicate index\<close>

lemma getPropertyValue_None [simp]:
  "getPropertyValue None t = []" "getPropertyValue p None = []"
  by (auto simp: getPropertyValue_def split: option.splits)

lemma fillRecord_at:
  "fillRecord cur r checkFields m field v =
     (if field \<in> set checkFields \<and> v \<noteq> []
         \<and> getPropertyValue (properties r field) (propertyTypeMap cur field) = v
      then Some (page_id r) else m field v)"
  by (induction checkFields arbitrary: m) (auto simp: Let_def split: option.splits)

lemma fillExistingValuesMap_at:
  "field \<in> set checkFields \<Longrightarrow> v \<noteq> [] \<Longrightarrow>
   fillExistingValuesMap cur checkFields records m field v =
     (case lastWithValue cur field v records of
        None \<Rightarrow> m field v
      | Some r \<Rightarrow> Some (page_id r))"
proof (induction records arbitrary: m)
  case Nil
  then show ?case by (simp add: lastWithValue_def)
next
  case (Cons r records)
  show ?case
    using Cons.prems
    by (simp add: Cons.IH fillRecord_at lastWithValue_def split: list.splits)
qed

text \<open>
  C1, as the claim states it, fails. Two pages \<open>A\<close> and \<open>B\<close>, in this order, hold the
  same link. The first page in scan order with that link is \<open>A\<close>, and the index built
  for the field holds \<open>B\<close>: \<^verbatim>\<open>Map.set\<close> replaces the identity stored by the earlier
  page.
\<close>

theorem C1_first_record_counterexample:
  "map_option page_id (firstWithValue linkSchema ''link'' ''http://x'' twoPagesSameLink) = Some ''A''
   \<and> fillExistingValuesMap linkSchema [''link''] twoPagesSameLink emptyValuesMap
         ''link'' ''http://x'' = Some ''B''"
  by (simp add: firstWithValue_def linkSchema_def twoPagesSameLink_def urlProperty_def
        emptyValuesMap_def propertyTypeMap_def getPropertyValue_def)

text \<open>
  C1, amended: for every key field and every non-empty text, the identity stored in the
  index for that text is the identity of the LAST page in scan order whose extracted
  value equals it (and nothing is stored when no page has that value): a later page
  with the same value replaces the identity stored by an earlier one.
\<close>

theorem C1_index_keeps_last_record:
  assumes "field \<in> set duplicateCheckFields" and "v \<noteq> []"
  shows "fillExistingValuesMap currentProperties duplicateCheckFields allRecords emptyValuesMap
           field v
         = map_option page_id (lastWithValue currentProperties field v allRecords)"
  using assms by (simp add: fillExistingValuesMap_at emptyValuesMap_def split: option.splits)

text \<open>C1, amended, at the two pages with the same link: the index holds the later page.\<close>

theorem C1_index_keeps_last_record_witness:
  "''link'' \<in> set [''link''] \<and> ''http://x'' \<noteq> []
   \<and> fillExistingValuesMap linkSchema [''link''] twoPagesSameLink emptyValuesMap
         ''link'' ''http://x''
       = map_option page_id (lastWithValue linkSchema ''link'' ''http://x'' twoPagesSameLink)
   \<and> map_option page_id (lastWithValue linkSchema ''link'' ''http://x'' twoPagesSameLink)
       = Some ''B''"
  using C1_index_keeps_last_record
          [of "''link''" "[''link'']" "''http://x''" linkSchema twoPagesSameLink]
  by (simp add: lastWithValue_def linkSchema_def twoPagesSameLink_def urlProperty_def
        propertyTypeMap_def getPropertyValue_def)

section \<open>Properties of the value extraction\<close>

lemma fillRecord_Some:
  "fillRecord cur r checkFields m field v = Some i \<Longrightarrow>
   m field v = Some i
   \<or> (v \<noteq> [] \<and> getPropertyValue (properties r field) (propertyTypeMap cur field) = v)"
  by (simp add: fillRecord_at split: if_splits)

lemma fillExistingValuesMap_Some:
  "fillExistingValuesMap cur checkFields records m field v = Some i \<Longrightarrow>
   m field v = Some i
   \<or> (v \<noteq> [] \<and> (\<exists>r \<in> set records.
          getPropertyValue (properties r field) (propertyTypeMap cur field) = v))"
proof (induction records arbitrary: m)
  case Nil
  then show ?case by simp
next
  case (Cons r records)
  from Cons.prems have
    "fillExistingValuesMap cur checkFields records (fillRecord cur r checkFields m) field v = Some i"
    by simp
  from Cons.IH [OF this] show ?case
    by (auto dest: fillRecord_Some)
qed

lemma getPropertyValue_unsupported:
  "t \<notin> {''url'', ''phone_number'', ''rich_text'', ''title''} \<Longrightarrow>
   getPropertyValue property (Some t) = []"
  by (auto simp: getPropertyValue_def split: option.splits)

lemma extracted_unsupported:
  assumes "t \<notin> {''url'', ''phone_number'', ''rich_text'', ''title''}"
    and "currentProperties field = Some t"
  shows "getPropertyValue property (propertyTypeMap currentProperties field) = []"
  using assms getPropertyValue_unsupported [OF assms(1), of property]
  by (simp add: propertyTypeMap_def)

text \<open>
  C4. With the type \<^verbatim>\<open>title\<close> or \<^verbatim>\<open>rich_text\<close> the extracted value is the
  concatenation of the plain texts of the property's segments; with \<^verbatim>\<open>url\<close> or
  \<^verbatim>\<open>phone_number\<close> it is the property's string; with any other type it is the empty
  string. An empty extracted value is never stored in the index, so a key field of
  such a type has an empty index and matches no document, whatever the document holds.
  The Excel script extracts these four types in the same way; it also gives the
  string of an e-mail, the text of a number, the name of a select or status, the names
  of a multi-select joined by commas (it throws when the property has no such list) and
  \<^verbatim>\<open>true\<close> or \<^verbatim>\<open>false\<close> for a checkbox, and the empty string for every type outside
  its ten.
\<close>

theorem C4_type_aware_extraction:
  "getPropertyValue (Some p) (Some ''title'')
     = concat (map plain_text (case title p of None \<Rightarrow> [] | Some segs \<Rightarrow> segs))
   \<and> getPropertyValue (Some p) (Some ''rich_text'')
     = concat (map plain_text (case rich_text p of None \<Rightarrow> [] | Some segs \<Rightarrow> segs))
   \<and> getPropertyValue (Some p) (Some ''url'') = (case url p of None \<Rightarrow> [] | Some s \<Rightarrow> s)
   \<and> getPropertyValue (Some p) (Some ''phone_number'')
     = (case phone_number p of None \<Rightarrow> [] | Some s \<Rightarrow> s)
   \<and> (t \<notin> {''url'', ''phone_number'', ''rich_text'', ''title''} \<longrightarrow>
        getPropertyValue property (Some t) = []
        \<and> (currentProperties field = Some t \<longrightarrow>
             fillExistingValuesMap currentProperties duplicateCheckFields allRecords
               emptyValuesMap field = Map.empty
             \<and> \<not> keyFieldHit (fillExistingValuesMap currentProperties duplicateCheckFields
                                allRecords emptyValuesMap) doc field))
   \<and> fillExistingValuesMap currentProperties duplicateCheckFields allRecords emptyValuesMap
        anyField [] = None
   \<and> getPropertyValue_excel (Some p) (Some ''title'')
     = Inr (concat (map plain_text (case title p of None \<Rightarrow> [] | Some segs \<Rightarrow> segs)))
   \<and> getPropertyValue_excel (Some p) (Some ''rich_text'')
     = Inr (concat (map plain_text (case rich_text p of None \<Rightarrow> [] | Some segs \<Rightarrow> segs)))
   \<and> getPropertyValue_excel (Some p) (Some ''url'')
     = Inr (case url p of None \<Rightarrow> [] | Some s \<Rightarrow> s)
   \<and> getPropertyValue_excel (Some p) (Some ''phone_number'')
     = Inr (case phone_number p of None \<Rightarrow> [] | Some s \<Rightarrow> s)
   \<and> getPropertyValue_excel (Some p) (Some ''email'')
     = Inr (case email p of None \<Rightarrow> [] | Some s \<Rightarrow> s)
   \<and> getPropertyValue_excel (Some p) (Some ''number'')
     = Inr (case number p of None \<Rightarrow> [] | Some s \<Rightarrow> s)
   \<and> getPropertyValue_excel (Some p) (Some ''select'')
     = Inr (case select p of None \<Rightarrow> [] | Some s \<Rightarrow> s)
   \<and> getPropertyValue_excel (Some p) (Some ''status'')
     = Inr (case status p of None \<Rightarrow> [] | Some s \<Rightarrow> s)
   \<and> getPropertyValue_excel (Some p) (Some ''multi_select'')
     = (case multi_select p of None \<Rightarrow> Inl TypeError | Some items \<Rightarrow> Inr (join_comma items))
   \<and> getPropertyValue_excel (Some p) (Some ''checkbox'')
     = Inr (if checkbox p = Some True then ''true'' else ''false'')
   \<and> (t' \<notin> {''url'', ''phone_number'', ''rich_text'', ''title'', ''email'', ''number'',
              ''select'', ''status'', ''multi_select'', ''checkbox''} \<longrightarrow>
        getPropertyValue_excel property (Some t') = Inr [])"
proof -
  have empty_key: "fillExistingValuesMap currentProperties duplicateCheckFields allRecords
                     emptyValuesMap anyField [] = None"
  proof (cases "fillExistingValuesMap currentProperties duplicateCheckFields allRecords
                  emptyValuesMap anyField []")
    case None
    then show ?thesis .
  next
    case (Some i)
    from fillExistingValuesMap_Some [OF this] show ?thesis
      by (simp add: emptyValuesMap_def)
  qed
  have unsupported:
    "fillExistingValuesMap currentProperties duplicateCheckFields allRecords
       emptyValuesMap field = Map.empty"
    if t: "t \<notin> {''url'', ''phone_number'', ''rich_text'', ''title''}"
      and f: "currentProperties field = Some t"
  proof
    fix v
    show "fillExistingValuesMap currentProperties duplicateCheckFields allRecords
            emptyValuesMap field v = None"
    proof (cases "fillExistingValuesMap currentProperties duplicateCheckFields allRecords
                    emptyValuesMap field v")
      case None
      then show ?thesis .
    next
      case (Some i)
      have "getPropertyValue property (propertyTypeMap currentProperties field) = []" for property
        using t f by (rule extracted_unsupported)
      with fillExistingValuesMap_Some [OF Some] show ?thesis
        by (auto simp: emptyValuesMap_def)
    qed
  qed
  have excel: "getPropertyValue_excel property (Some t') = Inr []"
    if "t' \<notin> {''url'', ''phone_number'', ''rich_text'', ''title'', ''email'', ''number'',
               ''select'', ''status'', ''multi_select'', ''checkbox''}"
    using that by (auto simp: getPropertyValue_excel_def split: option.splits)
  show ?thesis
    using empty_key unsupported excel getPropertyValue_unsupported [of t property]
    by (simp add: getPropertyValue_def getPropertyValue_excel_def keyFieldHit_def)
qed

text \<open>
  C4 at a page with an e-mail and a text of two segments: the text is extracted as one
  string and matches; the e-mail, a type the Mongo script does not extract, gives an
  empty index that the document's equal e-mail does not match.
\<close>

theorem C4_type_aware_extraction_witness:
  "''email'' \<notin> {''url'', ''phone_number'', ''rich_text'', ''title''}
   \<and> ''people'' \<notin> {''url'', ''phone_number'', ''rich_text'', ''title'', ''email'', ''number'',
                    ''select'', ''status'', ''multi_select'', ''checkbox''}
   \<and> mailSchema ''mail'' = Some ''email''
   \<and> getPropertyValue (Some (textProperty [''Hello, '', ''world''])) (Some ''rich_text'')
       = ''Hello, world''
   \<and> getPropertyValue (Some (mailProperty ''a@x.com'')) (Some ''email'') = []
   \<and> getPropertyValue_excel (Some (mailProperty ''a@x.com'')) (Some ''email'') = Inr ''a@x.com''
   \<and> getPropertyValue_excel (Some (mailProperty ''a@x.com'')) (Some ''people'') = Inr []
   \<and> fillExistingValuesMap mailSchema [''mail'', ''note''] [mailPage] emptyValuesMap ''mail''
       = Map.empty
   \<and> findDuplicate (fillExistingValuesMap mailSchema [''mail'', ''note''] [mailPage] emptyValuesMap)
        [''mail''] mailDoc = None
   \<and> findDuplicate (fillExistingValuesMap mailSchema [''mail'', ''note''] [mailPage] emptyValuesMap)
        [''mail'', ''note''] mailDoc = Some ''M1''"
  using C4_type_aware_extraction
          [of "textProperty [''Hello, '', ''world'']" "''email''" "Some (mailProperty ''a@x.com'')"
              mailSchema "''mail''" "[''mail'', ''note'']" "[mailPage]" mailDoc "''mail''"
              "''people''"]
  by (simp add: mailSchema_def mailProperty_def mailPage_def mailDoc_def textProperty_def
        getPropertyValue_def getPropertyValue_excel_def propertyTypeMap_def emptyValuesMap_def
        get_field_def keyFieldHit_def)

section \<open>Properties of the payloads\<close>

lemma buildPagePayload_loop_returns:
  "fst ` set e \<subseteq> dom sp \<Longrightarrow> \<exists>props children. buildPagePayload_loop e sp p0 c0 = Inr (props, children)"
  by (induction e arbitrary: p0 c0) (auto simp: Let_def split: option.splits)

lemma lastFieldFor_Nil [simp]: "lastFieldFor sp [] n = None"
  by (simp add: lastFieldFor_def)






lemma propertiesToUpdate_loop_keys:
  "propertiesToUpdate_loop e onlyNew np sp p0 = Inr props \<Longrightarrow>
   fst ` set props =
     fst ` set p0 \<union> {n. \<exists>hv \<in> set e. (onlyNew \<longrightarrow> fst hv \<in> set np)
                            \<and> map_option prop_name (sp (fst hv)) = Some n}"
proof (induction e arbitrary: p0)
  case Nil
  then show ?case by simp
next
  case (Cons hv e)
  obtain h v where hv: "hv = (h, v)" by (cases hv)
  show ?case
  proof (cases "onlyNew \<and> h \<notin> set np")
    case True
    then show ?thesis
      using Cons.prems hv Cons.IH [of p0] by auto
  next
    case False
    with Cons.prems hv obtain m where m: "sp h = Some m"
      by (auto split: option.splits)
    from False Cons.prems hv m have
      "propertiesToUpdate_loop e onlyNew np sp
         (AList.update (prop_name m) (buildPropertyPayload (prop_type m) (stringValue_of v)) p0)
       = Inr props"
      by (auto split: if_splits)
    from Cons.IH [OF this] show ?thesis
      using hv m False
      by (auto simp: dom_update image_iff)
  qed
qed



section \<open>Properties of the requests and retries\<close>

lemma upt_Suc_shift: "[0..<Suc n] = 0 # map Suc [0..<n]"
  by (simp add: upt_conv_Cons map_Suc_upt del: upt_Suc)

lemma rejectedAt_0 [simp]: "rejectedAt notion h (r # rs) 0 = rejection notion h r"
  by (simp add: rejectedAt_def)

lemma rejectedAt_Suc [simp]:
  "rejectedAt notion h (r # rs) (Suc i) = rejectedAt notion (h @ [r]) rs i"
  by (simp add: rejectedAt_def)

lemma rejectedIndices_Nil [simp]: "rejectedIndices notion h [] = []"
  by (simp add: rejectedIndices_def)

lemma rejectedIndices_Cons:
  "rejectedIndices notion h (r # rs) =
     (if rejection notion h r \<noteq> None then [0] else [])
     @ map Suc (rejectedIndices notion (h @ [r]) rs)"
  unfolding rejectedIndices_def length_Cons upt_Suc_shift
  by (simp add: filter_map o_def)

lemma rejectionMessages_Nil [simp]: "rejectionMessages notion h [] = []"
  by (simp add: rejectionMessages_def)

lemma rejectionMessages_Cons:
  "rejectionMessages notion h (r # rs) =
     (case rejection notion h r of None \<Rightarrow> [] | Some e \<Rightarrow> [e])
     @ rejectionMessages notion (h @ [r]) rs"
  unfolding rejectionMessages_def length_Cons upt_Suc_shift
  by (simp add: o_def)

lemma rejectedIndices_bound:
  "i \<in> set (rejectedIndices notion h requests) \<Longrightarrow> i < length requests"
  by (simp add: rejectedIndices_def)

lemma createRequest_Some:
  "createRequest sp e = Some c \<Longrightarrow>
     \<exists>props children. buildPagePayload e sp = Inr (props, children) \<and> c = PagesCreate props children"
  by (auto simp: createRequest_def split: sum.splits)

lemma updateRequest_Some:
  "updateRequest sp np d = Some c \<Longrightarrow>
     \<exists>props. propertiesToUpdate_loop (entry d) (updateOnlyNewProperties d) np sp [] = Inr props
           \<and> c = PagesUpdate (recordId d) props"
  by (auto simp: updateRequest_def split: sum.splits)

text \<open>The first pass sends one request for each record; the rejected records are kept.\<close>

lemma createRecords_run:
  assumes "map (createRequest sp) records = map Some requests"
  shows "createRecords notion records sp failed st =
           (Inr (failed @ map ((!) records) (rejectedIndices notion (calls st) requests)),
            st\<lparr>calls := calls st @ requests,
               console := console st @ map (\<lambda>e. ErrorAddRecord (ApiError e))
                                          (rejectionMessages notion (calls st) requests)\<rparr>)"
  using assms
proof (induction records arbitrary: requests failed st)
  case Nil
  then show ?case by simp
next
  case (Cons e records)
  then obtain c cs where rq: "requests = c # cs" "createRequest sp e = Some c"
    "map (createRequest sp) records = map Some cs"
    by (cases requests) auto
  from createRequest_Some [OF rq(2)] obtain props children where
    b: "buildPagePayload e sp = Inr (props, children)" "c = PagesCreate props children"
    by blast
  show ?case
  proof (cases "pages_create notion (calls st) props children")
    case (Inl err)
    then show ?thesis
      using b rq Cons.IH [OF rq(3)]
      by (simp add: rejectedIndices_Cons rejectionMessages_Cons rejection_def issue_def
            logLine_def o_def)
  next
    case (Inr u)
    then show ?thesis
      using b rq Cons.IH [OF rq(3)]
      by (simp add: rejectedIndices_Cons rejectionMessages_Cons rejection_def issue_def
            logLine_def o_def)
  qed
qed

text \<open>The second pass does the same with the records it is given.\<close>

lemma retryRecords_run:
  assumes "map (createRequest sp) records = map Some requests"
  shows "retryRecords notion records sp failed st =
           (Inr (failed @ map ((!) records) (rejectedIndices notion (calls st) requests)),
            st\<lparr>calls := calls st @ requests,
               console := console st @ map (\<lambda>e. ErrorRetry (ApiError e))
                                          (rejectionMessages notion (calls st) requests)\<rparr>)"
  using assms
proof (induction records arbitrary: requests failed st)
  case Nil
  then show ?case by simp
next
  case (Cons e records)
  then obtain c cs where rq: "requests = c # cs" "createRequest sp e = Some c"
    "map (createRequest sp) records = map Some cs"
    by (cases requests) auto
  from createRequest_Some [OF rq(2)] obtain props children where
    b: "buildPagePayload e sp = Inr (props, children)" "c = PagesCreate props children"
    by blast
  show ?case
  proof (cases "pages_create notion (calls st) props children")
    case (Inl err)
    then show ?thesis
      using b rq Cons.IH [OF rq(3)]
      by (simp add: rejectedIndices_Cons rejectionMessages_Cons rejection_def issue_def
            logLine_def o_def)
  next
    case (Inr u)
    then show ?thesis
      using b rq Cons.IH [OF rq(3)]
      by (simp add: rejectedIndices_Cons rejectionMessages_Cons rejection_def issue_def
            logLine_def o_def)
  qed
qed

lemma requests_of_failed:
  assumes "map (createRequest sp) records = map Some requests"
  shows "map (createRequest sp) (map ((!) records) (rejectedIndices notion h requests))
         = map Some (map ((!) requests) (rejectedIndices notion h requests))"
proof -
  have len: "length records = length requests"
    using assms by (metis length_map)
  have "createRequest sp (records ! i) = Some (requests ! i)" if "i < length requests" for i
    using assms that len by (metis nth_map)
  then show ?thesis
    by (auto dest: rejectedIndices_bound)
qed

lemma addNonDuplicateRecords_run:
  assumes "map (createRequest sp) records = map Some requests"
  shows "addNonDuplicateRecords notion records sp st =
     (let failed = rejectedIndices notion (calls st) requests;
          retried = map ((!) requests) failed;
          stillFailed = rejectedIndices notion (calls st @ requests) retried
      in (Inr (),
          st\<lparr>calls := calls st @ requests @ retried,
             console := console st
               @ map (\<lambda>e. ErrorAddRecord (ApiError e)) (rejectionMessages notion (calls st) requests)
               @ (if failed = [] then []
                  else WarnRetrying #
                       map (\<lambda>e. ErrorRetry (ApiError e))
                         (rejectionMessages notion (calls st @ requests) retried)
                       @ (if stillFailed = [] then [] else [WarnStillFailed]))\<rparr>))"
  unfolding addNonDuplicateRecords_def
  by (simp add: createRecords_run [OF assms]
        retryRecords_run [OF requests_of_failed [OF assms]] logLine_def Let_def)

lemma updateDuplicateRecords_run:
  assumes "map (updateRequest sp np) dups = map Some requests"
  shows "updateDuplicateRecords notion dups sp np st =
           (Inr (),
            st\<lparr>calls := calls st @ requests,
               console := console st @ map (\<lambda>e. ErrorUpdateDuplicate (ApiError e))
                                          (rejectionMessages notion (calls st) requests)\<rparr>)"
  using assms
proof (induction dups arbitrary: requests st)
  case Nil
  then show ?case by simp
next
  case (Cons d dups)
  then obtain c cs where rq: "requests = c # cs" "updateRequest sp np d = Some c"
    "map (updateRequest sp np) dups = map Some cs"
    by (cases requests) auto
  from updateRequest_Some [OF rq(2)] obtain props where
    b: "propertiesToUpdate_loop (entry d) (updateOnlyNewProperties d) np sp [] = Inr props"
       "c = PagesUpdate (recordId d) props"
    by blast
  show ?case
  proof (cases "pages_update notion (calls st) (recordId d) props")
    case (Inl err)
    then show ?thesis
      using b rq Cons.IH [OF rq(3)]
      by (simp add: rejectionMessages_Cons rejection_def issue_def logLine_def)
  next
    case (Inr u)
    then show ?thesis
      using b rq Cons.IH [OF rq(3)]
      by (simp add: rejectionMessages_Cons rejection_def issue_def logLine_def)
  qed
qed

lemma requests_are_creates:
  assumes "map (createRequest sp) records = map Some requests"
  shows "\<forall>c \<in> set requests. isPagesCreate c"
proof
  fix c assume "c \<in> set requests"
  then have "Some c \<in> set (map (createRequest sp) records)"
    using assms by simp
  then obtain e where "createRequest sp e = Some c" by auto
  from createRequest_Some [OF this] show "isPagesCreate c" by auto
qed

lemma retried_subset:
  "set (map ((!) requests) (rejectedIndices notion h requests)) \<subseteq> set requests"
  by (auto dest: rejectedIndices_bound)

text \<open>What \<^verbatim>\<open>addNonDuplicateRecords\<close> sends: the requests of its records, then retries.\<close>

lemma addNonDuplicateRecords_calls:
  assumes "map (createRequest sp) records = map Some requests"
  shows "\<exists>st' retried.
           addNonDuplicateRecords notion records sp st = (Inr (), st')
           \<and> calls st' = calls st @ requests @ retried
           \<and> set retried \<subseteq> set requests
           \<and> stdin st' = stdin st"
  using addNonDuplicateRecords_run [OF assms, of notion st] retried_subset [of requests notion]
  by (simp add: Let_def)

text \<open>
  C8. Let \<open>requests\<close> be the create requests of the records of a batch, in order (their
  payloads can be built). The requests \<^verbatim>\<open>addNonDuplicateRecords\<close> sends are: first all
  of \<open>requests\<close>, one for each record (the first pass), then once more those of
  \<open>requests\<close> that Notion rejected in the first pass (the second pass), and nothing
  after that: a record rejected again is not sent a third time. Each rejection is
  printed, the rejections of the second pass as errors of the retry followed by one
  warning, and the function returns normally however many requests are rejected. For an
  update batch \<^verbatim>\<open>updateDuplicateRecords\<close> sends one request for each duplicate and
  nothing else: a rejected update is printed and not sent again.
\<close>

theorem C8_create_retried_once_update_never:
  assumes "map (createRequest selectedProperties) recordsToAdd = map Some requests"
    and "map (updateRequest selectedProperties newProperties) duplicatesToUpdate = map Some updates"
  shows "addNonDuplicateRecords notion recordsToAdd selectedProperties st =
           (let failed = rejectedIndices notion (calls st) requests;
                retried = map ((!) requests) failed;
                stillFailed = rejectedIndices notion (calls st @ requests) retried
            in (Inr (),
                st\<lparr>calls := calls st @ requests @ retried,
                   console := console st
                     @ map (\<lambda>e. ErrorAddRecord (ApiError e))
                         (rejectionMessages notion (calls st) requests)
                     @ (if failed = [] then []
                        else WarnRetrying #
                             map (\<lambda>e. ErrorRetry (ApiError e))
                               (rejectionMessages notion (calls st @ requests) retried)
                             @ (if stillFailed = [] then [] else [WarnStillFailed]))\<rparr>))
         \<and> updateDuplicateRecords notion duplicatesToUpdate selectedProperties newProperties st' =
           (Inr (),
            st'\<lparr>calls := calls st' @ updates,
                console := console st'
                  @ map (\<lambda>e. ErrorUpdateDuplicate (ApiError e))
                      (rejectionMessages notion (calls st') updates)\<rparr>)"
  using addNonDuplicateRecords_run [OF assms(1)] updateDuplicateRecords_run [OF assms(2)]
  by simp

text \<open>
  C8 at three records, with a service that is busy at the first request and never accepts
  the third record: the first record is created at its retry, the third is sent twice
  and reported; of two updates the rejected one is reported and sent once.
\<close>

theorem C8_create_retried_once_update_never_witness:
  "map (createRequest nameMapping) threeRecords
     = map Some [PagesCreate [(''Name'', PTitle ''Alice'')] [],
                 PagesCreate [(''Name'', PTitle ''Bob'')] [],
                 PagesCreate [(''Name'', PTitle ''Bad'')] []]
   \<and> map (updateRequest nameMapping [''name'']) twoDuplicates
     = map Some [PagesUpdate ''P1'' [(''Name'', PTitle ''Alice'')],
                 PagesUpdate ''P2'' [(''Name'', PTitle ''Bob'')]]
   \<and> addNonDuplicateRecords flakyNotion threeRecords nameMapping idle
     = (Inr (),
        \<lparr>stdin = [],
         console = [ErrorAddRecord (ApiError ''busy''),
                    ErrorAddRecord (ApiError ''validation_error''),
                    WarnRetrying,
                    ErrorRetry (ApiError ''validation_error''),
                    WarnStillFailed],
         calls = [PagesCreate [(''Name'', PTitle ''Alice'')] [],
                  PagesCreate [(''Name'', PTitle ''Bob'')] [],
                  PagesCreate [(''Name'', PTitle ''Bad'')] [],
                  PagesCreate [(''Name'', PTitle ''Alice'')] [],
                  PagesCreate [(''Name'', PTitle ''Bad'')] []]\<rparr>)
   \<and> updateDuplicateRecords flakyNotion twoDuplicates nameMapping [''name''] idle
     = (Inr (),
        \<lparr>stdin = [],
         console = [ErrorUpdateDuplicate (ApiError ''conflict'')],
         calls = [PagesUpdate ''P1'' [(''Name'', PTitle ''Alice'')],
                  PagesUpdate ''P2'' [(''Name'', PTitle ''Bob'')]]\<rparr>)"
  using C8_create_retried_once_update_never
          [of nameMapping threeRecords
              "[PagesCreate [(''Name'', PTitle ''Alice'')] [],
                PagesCreate [(''Name'', PTitle ''Bob'')] [],
                PagesCreate [(''Name'', PTitle ''Bad'')] []]"
              "[''name'']" twoDuplicates
              "[PagesUpdate ''P1'' [(''Name'', PTitle ''Alice'')],
                PagesUpdate ''P2'' [(''Name'', PTitle ''Bob'')]]"
              flakyNotion idle idle]
  by (simp add: nameMapping_def threeRecords_def twoDuplicates_def flakyNotion_def idle_def
        createRequest_def updateRequest_def buildPagePayload_def buildPropertyPayload_def
        stringValue_of_def rejectedIndices_def rejectionMessages_def rejectedAt_def
        rejection_def)

section \<open>Properties of the classification\<close>

lemma findDuplicate_filter:
  "findDuplicate m checkFields doc =
     (case filter (keyFieldHit m doc) checkFields of
        [] \<Rightarrow> None
      | f # _ \<Rightarrow> m f (String_js (get_field doc f)))"
  by (induction checkFields) (auto simp: keyFieldHit_def Let_def split: option.splits)

lemma findDuplicate_None_iff:
  "findDuplicate m checkFields doc = None \<longleftrightarrow> (\<forall>f \<in> set checkFields. \<not> keyFieldHit m doc f)"
  by (induction checkFields) (auto simp: keyFieldHit_def Let_def split: option.splits)

lemma findDuplicate_first_hit:
  assumes "\<forall>f \<in> set before. \<not> keyFieldHit m doc f" and "keyFieldHit m doc field"
  shows "findDuplicate m (before @ field # after) doc = m field (String_js (get_field doc field))"
  using assms
  by (induction before) (auto simp: keyFieldHit_def Let_def split: option.splits)

lemma findDuplicate_skip:
  assumes "\<not> keyFieldHit m doc field"
  shows "findDuplicate m (before @ field # after) doc = findDuplicate m (before @ after) doc"
  using assms by (simp add: findDuplicate_filter)

lemma hasNewPropertyValues_iff:
  "hasNewPropertyValues newProperties doc
   \<longleftrightarrow> (\<exists>f \<in> set newProperties. hasValue (get_field doc f))"
  by (induction newProperties) (auto simp: hasValue_def)

lemma separate_eq:
  "separate m checkFields duplicateOption newProperties data dups nondups =
     (dups @ concat (map (toUpdate m checkFields duplicateOption newProperties) data),
      nondups @ filter (\<lambda>doc. findDuplicate m checkFields doc = None) data)"
  by (induction data arbitrary: dups nondups) (auto simp: toUpdate_def split: option.splits)

text \<open>
  C6. The duplicate status of a document is decided by the first key field, in the order
  given, that hits (the value is neither undefined nor null and its text is a key of the
  field's index): the matched identity is the one stored for that field, whatever key
  fields come after it. A key field whose value is undefined or null never hits, even
  when the index has the text \<^verbatim>\<open>undefined\<close> or \<^verbatim>\<open>null\<close> as a key, and the search goes
  on as if the field were not listed. A document of the input is in
  \<^verbatim>\<open>nonDuplicatesToAdd\<close> exactly when no key field hits.
\<close>

theorem C6_first_key_field_wins:
  "findDuplicate m duplicateCheckFields doc
     = (case filter (keyFieldHit m doc) duplicateCheckFields of
          [] \<Rightarrow> None
        | f # _ \<Rightarrow> m f (String_js (get_field doc f)))
   \<and> ((\<forall>f \<in> set before. \<not> keyFieldHit m doc f) \<and> keyFieldHit m doc field \<longrightarrow>
        findDuplicate m (before @ field # after) doc = m field (String_js (get_field doc field))
        \<and> findDuplicate m (before @ field # after) doc \<noteq> None)
   \<and> (get_field doc nullField = JUndefined \<or> get_field doc nullField = JNull \<longrightarrow>
        \<not> keyFieldHit m doc nullField
        \<and> findDuplicate m (before' @ nullField # after') doc = findDuplicate m (before' @ after') doc)
   \<and> (doc \<in> set data \<longrightarrow>
        (doc \<in> set (snd (separate m duplicateCheckFields duplicateOption newProperties data [] []))
         \<longleftrightarrow> (\<forall>f \<in> set duplicateCheckFields. \<not> keyFieldHit m doc f)))"
proof (intro conjI impI)
  show "findDuplicate m duplicateCheckFields doc
     = (case filter (keyFieldHit m doc) duplicateCheckFields of
          [] \<Rightarrow> None
        | f # _ \<Rightarrow> m f (String_js (get_field doc f)))"
    by (rule findDuplicate_filter)
next
  assume h: "(\<forall>f \<in> set before. \<not> keyFieldHit m doc f) \<and> keyFieldHit m doc field"
  then show "findDuplicate m (before @ field # after) doc = m field (String_js (get_field doc field))"
    by (simp add: findDuplicate_first_hit)
  with h show "findDuplicate m (before @ field # after) doc \<noteq> None"
    by (simp add: keyFieldHit_def)
next
  assume n: "get_field doc nullField = JUndefined \<or> get_field doc nullField = JNull"
  then show nh: "\<not> keyFieldHit m doc nullField"
    by (auto simp: keyFieldHit_def)
  then show "findDuplicate m (before' @ nullField # after') doc = findDuplicate m (before' @ after') doc"
    by (rule findDuplicate_skip)
next
  assume "doc \<in> set data"
  then show "doc \<in> set (snd (separate m duplicateCheckFields duplicateOption newProperties data [] []))
         \<longleftrightarrow> (\<forall>f \<in> set duplicateCheckFields. \<not> keyFieldHit m doc f)"
    by (simp add: separate_eq findDuplicate_None_iff)
qed

text \<open>
  C6 at three documents and the key fields \<^verbatim>\<open>fax\<close>, \<^verbatim>\<open>email\<close>, \<^verbatim>\<open>phone\<close>: the first
  document has a null fax and matches by its e-mail (page \<open>P1\<close>), not by its phone (page
  \<open>P2\<close>); the second has a null phone, which does not match the page whose phone is the
  text \<^verbatim>\<open>null\<close>, and is to be created.
\<close>

theorem C6_first_key_field_wins_witness:
  "findDuplicate contactIndex [''fax'', ''email'', ''phone''] aliceDoc = Some ''P1''
   \<and> \<not> keyFieldHit contactIndex aliceDoc ''fax'' \<and> keyFieldHit contactIndex aliceDoc ''email''
   \<and> keyFieldHit contactIndex aliceDoc ''phone''
   \<and> get_field aliceDoc ''fax'' = JNull
   \<and> findDuplicate contactIndex ([] @ ''fax'' # [''email'', ''phone'']) aliceDoc
       = findDuplicate contactIndex ([] @ [''email'', ''phone'']) aliceDoc
   \<and> aliceDoc \<in> set [aliceDoc, bobDoc]
   \<and> aliceDoc \<notin> set (snd (separate contactIndex [''fax'', ''email'', ''phone''] ''1'' []
                              [aliceDoc, bobDoc] [] []))
   \<and> findDuplicate contactIndex [''phone''] bobDoc = None
   \<and> snd (separate contactIndex [''fax'', ''email'', ''phone''] ''1'' [] [aliceDoc, bobDoc] [] [])
       = [bobDoc]"
  using C6_first_key_field_wins
          [of contactIndex "[''fax'', ''email'', ''phone'']" aliceDoc "[''fax'']" "''email''"
              "[''phone'']" "''fax''" "[]" "[''email'', ''phone'']" "[aliceDoc, bobDoc]" "''1''" "[]"]
  by (simp add: contactIndex_def emptyValuesMap_def aliceDoc_def bobDoc_def keyFieldHit_def
        get_field_def)

lemma set_toUpdate:
  "d \<in> set (concat (map (toUpdate m checkFields duplicateOption newProperties) data)) \<longleftrightarrow>
   (\<exists>doc \<in> set data. \<exists>rid. findDuplicate m checkFields doc = Some rid
        \<and> duplicateOption = ''2'' \<and> hasNewPropertyValues newProperties doc
        \<and> d = \<lparr>recordId = rid, entry = doc, updateOnlyNewProperties = True\<rparr>)"
  by (auto simp: toUpdate_def split: option.splits if_splits)

text \<open>
  A run of \<^verbatim>\<open>exportToNotion\<close> that checks duplicates, when the listing of the pages
  and the reading of the schema succeed and the payloads can be built: it sends the
  update requests of \<^verbatim>\<open>duplicatesForUpdate\<close>, then the create requests of
  \<^verbatim>\<open>nonDuplicatesToAdd\<close>, then retries of these, and returns normally.
\<close>

lemma separate_no_updates:
  assumes "duplicateOption \<noteq> ''2''"
  shows "fst (separate m checkFields duplicateOption newProperties data [] []) = []"
  using assms by (simp add: separate_eq toUpdate_def split: option.splits)

lemma exportToNotion_checking_run:
  assumes "duplicateOption \<noteq> ''3''"
    and "fetchAllRecords notion st = Some (Inr allRecords, st1)"
    and "databases_retrieve notion (calls st1) = Inr currentProperties"
    and "separate (fillExistingValuesMap currentProperties duplicateCheckFields allRecords
                     emptyValuesMap)
           duplicateCheckFields duplicateOption newProperties data [] []
         = (duplicatesForUpdate, nonDuplicatesToAdd)"
    and "map (updateRequest selectedProperties newProperties) duplicatesForUpdate = map Some updates"
    and "map (createRequest selectedProperties) nonDuplicatesToAdd = map Some requests"
  shows "\<exists>st' retried.
           exportToNotion notion data selectedProperties duplicateCheckFields duplicateOption
             newProperties st = Some (Inr (), st')
           \<and> calls st' = calls st1 @ [DatabasesRetrieve] @ updates @ requests @ retried
           \<and> set retried \<subseteq> set requests"
proof -
  let ?st2 = "issue DatabasesRetrieve st1"
  have len_u: "length duplicatesForUpdate = length updates"
    using assms(5) by (metis length_map)
  have len_r: "length nonDuplicatesToAdd = length requests"
    using assms(6) by (metis length_map)
  obtain st3 where
    u: "(if duplicateOption = ''2'' \<and> length duplicatesForUpdate > 0
         then updateDuplicateRecords notion duplicatesForUpdate selectedProperties newProperties ?st2
         else (Inr (), ?st2)) = (Inr (), st3)"
    and c3: "calls st3 = calls st1 @ [DatabasesRetrieve] @ updates"
  proof (cases "duplicateOption = ''2'' \<and> length duplicatesForUpdate > 0")
    case True
    let ?st3 = "?st2\<lparr>calls := calls ?st2 @ updates,
                     console := console ?st2
                       @ map (\<lambda>e. ErrorUpdateDuplicate (ApiError e))
                           (rejectionMessages notion (calls ?st2) updates)\<rparr>"
    from True updateDuplicateRecords_run [OF assms(5), of notion ?st2]
    have "(if duplicateOption = ''2'' \<and> length duplicatesForUpdate > 0
         then updateDuplicateRecords notion duplicatesForUpdate selectedProperties newProperties ?st2
         else (Inr (), ?st2)) = (Inr (), ?st3)"
      by simp
    moreover have "calls ?st3 = calls st1 @ [DatabasesRetrieve] @ updates"
      by (simp add: issue_def)
    ultimately show ?thesis
      by (rule that)
  next
    case False
    have "duplicatesForUpdate = []"
    proof (cases "duplicateOption = ''2''")
      case True
      with False show ?thesis by simp
    next
      case False
      from separate_no_updates [OF this] assms(4) show ?thesis
        by (metis fst_conv)
    qed
    with len_u have e: "updates = []" by simp
    from False have "(if duplicateOption = ''2'' \<and> length duplicatesForUpdate > 0
         then updateDuplicateRecords notion duplicatesForUpdate selectedProperties newProperties ?st2
         else (Inr (), ?st2)) = (Inr (), ?st2)"
      by simp
    moreover have "calls ?st2 = calls st1 @ [DatabasesRetrieve] @ updates"
      using e by (simp add: issue_def)
    ultimately show ?thesis
      by (rule that)
  qed
  show ?thesis
  proof (cases "length nonDuplicatesToAdd > 0")
    case True
    from addNonDuplicateRecords_calls [OF assms(6), of notion st3] obtain st' retried where
      a: "addNonDuplicateRecords notion nonDuplicatesToAdd selectedProperties st3 = (Inr (), st')"
         "calls st' = calls st3 @ requests @ retried" "set retried \<subseteq> set requests"
      by blast
    have "exportToNotion notion data selectedProperties duplicateCheckFields duplicateOption
            newProperties st = Some (Inr (), st')"
      using assms(1-4) u a(1) True
      by (simp add: exportToNotion_def Let_def)
    with a(2,3) c3 show ?thesis
      by auto
  next
    case False
    with len_r have r: "requests = []" by simp
    have "exportToNotion notion data selectedProperties duplicateCheckFields duplicateOption
            newProperties st = Some (Inr (), st3)"
      using assms(1-4) u False
      by (simp add: exportToNotion_def Let_def)
    with r c3 show ?thesis
      by auto
  qed
qed

text \<open>
  C3. Under option 2, for a document of the input that is a duplicate (a key field
  matched the page \<open>rid\<close>): the document is put on \<^verbatim>\<open>duplicatesForUpdate\<close> exactly when
  one of the new properties names a field of the document whose value is not undefined,
  not null and not the empty string, and then with the matched page and the flag that
  restricts the update to the new properties; it is never put on
  \<^verbatim>\<open>nonDuplicatesToAdd\<close>. The properties of an update request all come from fields
  whose name is among the new properties. \<^verbatim>\<open>updateDuplicateRecords\<close> sends exactly
  the update requests of \<^verbatim>\<open>duplicatesForUpdate\<close>, one for each. And a run of
  \<^verbatim>\<open>exportToNotion\<close> whose index is \<open>m\<close> sends, after listing the pages and reading the
  schema, exactly these update requests, then the create requests of
  \<^verbatim>\<open>nonDuplicatesToAdd\<close> and retries of these: a duplicate with no new value gets no
  request at all.
\<close>

theorem C3_update_only_new_properties:
  assumes "doc \<in> set data"
    and "findDuplicate m duplicateCheckFields doc = Some rid"
    and "separate m duplicateCheckFields ''2'' newProperties data [] []
         = (duplicatesForUpdate, nonDuplicatesToAdd)"
  shows "((\<exists>d \<in> set duplicatesForUpdate. entry d = doc)
          \<longleftrightarrow> (\<exists>f \<in> set newProperties. hasValue (get_field doc f)))
       \<and> (\<forall>d \<in> set duplicatesForUpdate. entry d = doc \<longrightarrow>
             recordId d = rid \<and> updateOnlyNewProperties d)
       \<and> doc \<notin> set nonDuplicatesToAdd
       \<and> (\<forall>d \<in> set duplicatesForUpdate. \<forall>props.
             updateRequest selectedProperties newProperties d = Some (PagesUpdate (recordId d) props)
             \<longrightarrow> (\<forall>n \<in> fst ` set props. \<exists>h \<in> set newProperties.
                     h \<in> fst ` set (entry d)
                     \<and> map_option prop_name (selectedProperties h) = Some n))
       \<and> (map (updateRequest selectedProperties newProperties) duplicatesForUpdate
             = map Some updates
           \<longrightarrow> updateDuplicateRecords notion duplicatesForUpdate selectedProperties
                 newProperties before
               = (Inr (),
                  before\<lparr>calls := calls before @ updates,
                      console := console before
                        @ map (\<lambda>e. ErrorUpdateDuplicate (ApiError e))
                            (rejectionMessages notion (calls before) updates)\<rparr>)
             \<and> (m = fillExistingValuesMap currentProperties duplicateCheckFields allRecords
                        emptyValuesMap
                  \<and> fetchAllRecords notion st = Some (Inr allRecords, listed)
                  \<and> databases_retrieve notion (calls listed) = Inr currentProperties
                  \<and> map (createRequest selectedProperties) nonDuplicatesToAdd = map Some requests
                  \<longrightarrow> (\<exists>st' retried.
                         exportToNotion notion data selectedProperties duplicateCheckFields ''2''
                           newProperties st = Some (Inr (), st')
                         \<and> calls st' = calls listed @ [DatabasesRetrieve] @ updates @ requests @ retried
                         \<and> set retried \<subseteq> set requests)))"
proof -
  have dups: "duplicatesForUpdate
              = concat (map (toUpdate m duplicateCheckFields ''2'' newProperties) data)"
    and nondups: "nonDuplicatesToAdd
              = filter (\<lambda>doc. findDuplicate m duplicateCheckFields doc = None) data"
    using assms(3) by (simp_all add: separate_eq)
  have mem: "d \<in> set duplicatesForUpdate \<longleftrightarrow>
      (\<exists>doc \<in> set data. \<exists>rid. findDuplicate m duplicateCheckFields doc = Some rid
          \<and> hasNewPropertyValues newProperties doc
          \<and> d = \<lparr>recordId = rid, entry = doc, updateOnlyNewProperties = True\<rparr>)" for d
    unfolding dups set_toUpdate by simp
  have a: "(\<exists>d \<in> set duplicatesForUpdate. entry d = doc)
           \<longleftrightarrow> (\<exists>f \<in> set newProperties. hasValue (get_field doc f))"
  proof
    assume "\<exists>d \<in> set duplicatesForUpdate. entry d = doc"
    then have "hasNewPropertyValues newProperties doc"
      by (auto simp: mem)
    then show "\<exists>f \<in> set newProperties. hasValue (get_field doc f)"
      by (simp add: hasNewPropertyValues_iff)
  next
    assume "\<exists>f \<in> set newProperties. hasValue (get_field doc f)"
    then have "hasNewPropertyValues newProperties doc"
      by (simp add: hasNewPropertyValues_iff)
    with assms(1,2)
    have "\<lparr>recordId = rid, entry = doc, updateOnlyNewProperties = True\<rparr> \<in> set duplicatesForUpdate"
      unfolding mem by blast
    then show "\<exists>d \<in> set duplicatesForUpdate. entry d = doc"
      by force
  qed
  have b: "recordId d = rid \<and> updateOnlyNewProperties d"
    if "d \<in> set duplicatesForUpdate" "entry d = doc" for d
    using that assms(2) by (auto simp: mem)
  have c: "doc \<notin> set nonDuplicatesToAdd"
    using assms(2) by (simp add: nondups)
  have d: "\<exists>h \<in> set newProperties. h \<in> fst ` set (entry d)
                \<and> map_option prop_name (selectedProperties h) = Some n"
    if d: "d \<in> set duplicatesForUpdate"
      and r: "updateRequest selectedProperties newProperties d = Some (PagesUpdate (recordId d) props)"
      and n: "n \<in> fst ` set props" for d props n
  proof -
    from d have only: "updateOnlyNewProperties d"
      by (auto simp: mem)
    from updateRequest_Some [OF r] only have
      "propertiesToUpdate_loop (entry d) True newProperties selectedProperties [] = Inr props"
      by simp
    from propertiesToUpdate_loop_keys [OF this] n show ?thesis
      by auto
  qed
  have e: "updateDuplicateRecords notion duplicatesForUpdate selectedProperties newProperties before
           = (Inr (),
              before\<lparr>calls := calls before @ updates,
                  console := console before
                    @ map (\<lambda>e. ErrorUpdateDuplicate (ApiError e))
                        (rejectionMessages notion (calls before) updates)\<rparr>)"
    if "map (updateRequest selectedProperties newProperties) duplicatesForUpdate = map Some updates"
    using that by (rule updateDuplicateRecords_run)
  have f: "\<exists>st' retried.
             exportToNotion notion data selectedProperties duplicateCheckFields ''2''
               newProperties st = Some (Inr (), st')
             \<and> calls st' = calls listed @ [DatabasesRetrieve] @ updates @ requests @ retried
             \<and> set retried \<subseteq> set requests"
    if u: "map (updateRequest selectedProperties newProperties) duplicatesForUpdate = map Some updates"
      and h: "m = fillExistingValuesMap currentProperties duplicateCheckFields allRecords
                    emptyValuesMap
              \<and> fetchAllRecords notion st = Some (Inr allRecords, listed)
              \<and> databases_retrieve notion (calls listed) = Inr currentProperties
              \<and> map (createRequest selectedProperties) nonDuplicatesToAdd = map Some requests"
  proof -
    have "''2'' \<noteq> ''3''" by simp
    moreover from h have "fetchAllRecords notion st = Some (Inr allRecords, listed)" by blast
    moreover from h have "databases_retrieve notion (calls listed) = Inr currentProperties" by blast
    moreover from h assms(3)
    have "separate (fillExistingValuesMap currentProperties duplicateCheckFields allRecords
                      emptyValuesMap)
            duplicateCheckFields ''2'' newProperties data [] []
          = (duplicatesForUpdate, nonDuplicatesToAdd)"
      by blast
    moreover note u
    moreover from h
    have "map (createRequest selectedProperties) nonDuplicatesToAdd = map Some requests" by blast
    ultimately show ?thesis
      by (rule exportToNotion_checking_run)
  qed
  show ?thesis
  proof (intro conjI ballI allI impI)
    show "(\<exists>d \<in> set duplicatesForUpdate. entry d = doc)
          \<longleftrightarrow> (\<exists>f \<in> set newProperties. hasValue (get_field doc f))"
      by (rule a)
    show "doc \<notin> set nonDuplicatesToAdd"
      by (rule c)
  next
    fix x assume "x \<in> set duplicatesForUpdate" "entry x = doc"
    then show "recordId x = rid" "updateOnlyNewProperties x"
      using b by blast+
  next
    fix x props n
    assume "x \<in> set duplicatesForUpdate"
      "updateRequest selectedProperties newProperties x = Some (PagesUpdate (recordId x) props)"
      "n \<in> fst ` set props"
    then show "\<exists>h \<in> set newProperties. h \<in> fst ` set (entry x)
                \<and> map_option prop_name (selectedProperties h) = Some n"
      by (rule d)
  next
    assume u: "map (updateRequest selectedProperties newProperties) duplicatesForUpdate
               = map Some updates"
    then show "updateDuplicateRecords notion duplicatesForUpdate selectedProperties
                 newProperties before
               = (Inr (),
                  before\<lparr>calls := calls before @ updates,
                      console := console before
                        @ map (\<lambda>e. ErrorUpdateDuplicate (ApiError e))
                            (rejectionMessages notion (calls before) updates)\<rparr>)"
      by (rule e)
    assume "m = fillExistingValuesMap currentProperties duplicateCheckFields allRecords
                  emptyValuesMap
            \<and> fetchAllRecords notion st = Some (Inr allRecords, listed)
            \<and> databases_retrieve notion (calls listed) = Inr currentProperties
            \<and> map (createRequest selectedProperties) nonDuplicatesToAdd = map Some requests"
    with u show "\<exists>st' retried.
             exportToNotion notion data selectedProperties duplicateCheckFields ''2''
               newProperties st = Some (Inr (), st')
             \<and> calls st' = calls listed @ [DatabasesRetrieve] @ updates @ requests @ retried
             \<and> set retried \<subseteq> set requests"
      by (rule f)
  qed
qed

text \<open>
  C3 at three documents, with the key field \<^verbatim>\<open>phone\<close> and the new property
  \<^verbatim>\<open>city\<close>, against two pages listed in two answers: the first document is a
  duplicate of the page \<open>P2\<close> with a city and is updated, with its city only; the third
  is a duplicate with a null city and gets no request at all; the second has a null
  phone, is no duplicate and is created.
\<close>

theorem C3_update_only_new_properties_witness:
  "aliceDoc \<in> set [aliceDoc, bobDoc, daveDoc]
   \<and> findDuplicate (fillExistingValuesMap phoneSchema [''phone''] [pageP1, pageP2] emptyValuesMap)
         [''phone''] aliceDoc = Some ''P2''
   \<and> findDuplicate (fillExistingValuesMap phoneSchema [''phone''] [pageP1, pageP2] emptyValuesMap)
         [''phone''] daveDoc = Some ''P2''
   \<and> separate (fillExistingValuesMap phoneSchema [''phone''] [pageP1, pageP2] emptyValuesMap)
         [''phone''] ''2'' [''city''] [aliceDoc, bobDoc, daveDoc] [] []
       = ([\<lparr>recordId = ''P2'', entry = aliceDoc, updateOnlyNewProperties = True\<rparr>], [bobDoc])
   \<and> hasValue (get_field aliceDoc ''city'') \<and> \<not> hasValue (get_field daveDoc ''city'')
   \<and> map (updateRequest contactMapping [''city''])
         [\<lparr>recordId = ''P2'', entry = aliceDoc, updateOnlyNewProperties = True\<rparr>]
       = map Some [PagesUpdate ''P2'' [(''city'', PRichText ''Rome'')]]
   \<and> map (createRequest contactMapping) [bobDoc]
       = map Some [PagesCreate [(''Name'', PTitle ''Bob''), (''email'', PEmail ''b@x.com''),
                                (''phone'', PPhoneNumber [])] []]
   \<and> fetchAllRecords contactsNotion idle
       = Some (Inr [pageP1, pageP2],
               \<lparr>stdin = [], console = [],
                calls = [DatabasesQuery None, DatabasesQuery (Some ''c1'')]\<rparr>)
   \<and> map_option (calls \<circ> snd)
         (exportToNotion contactsNotion [aliceDoc, bobDoc, daveDoc] contactMapping [''phone'']
            ''2'' [''city''] idle)
       = Some [DatabasesQuery None, DatabasesQuery (Some ''c1''), DatabasesRetrieve,
               PagesUpdate ''P2'' [(''city'', PRichText ''Rome'')],
               PagesCreate [(''Name'', PTitle ''Bob''), (''email'', PEmail ''b@x.com''),
                            (''phone'', PPhoneNumber [])] []]"
  using C3_update_only_new_properties
          [where doc = aliceDoc and data = "[aliceDoc, bobDoc, daveDoc]"
             and m = "fillExistingValuesMap phoneSchema [''phone''] [pageP1, pageP2] emptyValuesMap"
             and duplicateCheckFields = "[''phone'']" and rid = "''P2''"
             and newProperties = "[''city'']"
             and duplicatesForUpdate
                   = "[\<lparr>recordId = ''P2'', entry = aliceDoc, updateOnlyNewProperties = True\<rparr>]"
             and nonDuplicatesToAdd = "[bobDoc]" and selectedProperties = contactMapping
             and updates = "[PagesUpdate ''P2'' [(''city'', PRichText ''Rome'')]]"
             and notion = contactsNotion and before = idle
             and currentProperties = phoneSchema and allRecords = "[pageP1, pageP2]"
             and st = idle
             and listed = "\<lparr>stdin = [], console = [],
                         calls = [DatabasesQuery None, DatabasesQuery (Some ''c1'')]\<rparr>"
             and requests = "[PagesCreate [(''Name'', PTitle ''Bob''), (''email'', PEmail ''b@x.com''),
                                          (''phone'', PPhoneNumber [])] []]"]
  by (simp add: phoneSchema_def pageP1_def pageP2_def phoneProperty_def contactsNotion_def
        emptyValuesMap_def propertyTypeMap_def getPropertyValue_def
        aliceDoc_def bobDoc_def daveDoc_def contactMapping_def get_field_def hasValue_def
        updateRequest_def createRequest_def buildPagePayload_def
        buildPropertyPayload_def stringValue_of_def idle_def
        fetchAllRecords_def fetchAllRecords_loop.simps issue_def logLine_def
        exportToNotion_def addNonDuplicateRecords_def)

section \<open>Properties of the orchestrator\<close>

text \<open>
  C7. With the option \<^verbatim>\<open>"3"\<close>, \<^verbatim>\<open>exportToNotion\<close> is
  \<^verbatim>\<open>addNonDuplicateRecords\<close> on the whole input list. When the payloads of the
  records can be built, it returns normally; the first requests it sends are the create
  requests of all input records, in order, and every request it sends is a create
  request of an input record (no query, no update).
\<close>

theorem C7_option_3_creates_every_record:
  "exportToNotion notion data selectedProperties duplicateCheckFields ''3'' newProperties st
     = Some (addNonDuplicateRecords notion data selectedProperties st)
   \<and> (map (createRequest selectedProperties) data = map Some requests \<longrightarrow>
        (\<exists>st'. exportToNotion notion data selectedProperties duplicateCheckFields ''3''
                  newProperties st = Some (Inr (), st')
              \<and> take (length data) (drop (length (calls st)) (calls st')) = requests
              \<and> (\<forall>c \<in> set (drop (length (calls st)) (calls st')).
                    isPagesCreate c \<and> c \<in> set requests)))"
proof (intro conjI impI)
  show e: "exportToNotion notion data selectedProperties duplicateCheckFields ''3'' newProperties st
     = Some (addNonDuplicateRecords notion data selectedProperties st)"
    by (simp add: exportToNotion_def)
  assume r: "map (createRequest selectedProperties) data = map Some requests"
  then have len: "length data = length requests"
    by (metis length_map)
  from addNonDuplicateRecords_calls [OF r, of notion st] obtain st' retried where
    a: "addNonDuplicateRecords notion data selectedProperties st = (Inr (), st')"
       "calls st' = calls st @ requests @ retried" "set retried \<subseteq> set requests"
    by blast
  have "\<forall>c \<in> set (drop (length (calls st)) (calls st')). isPagesCreate c \<and> c \<in> set requests"
    using a(2,3) requests_are_creates [OF r] by auto
  then show "\<exists>st'. exportToNotion notion data selectedProperties duplicateCheckFields ''3''
                  newProperties st = Some (Inr (), st')
              \<and> take (length data) (drop (length (calls st)) (calls st')) = requests
              \<and> (\<forall>c \<in> set (drop (length (calls st)) (calls st')).
                    isPagesCreate c \<and> c \<in> set requests)"
    using e a len by auto
qed

text \<open>
  C7 at three records, two of which are rejected at first: all three are requested, in
  order, before anything is retried, and nothing but create requests is sent.
\<close>

theorem C7_option_3_creates_every_record_witness:
  "map (createRequest nameMapping) threeRecords
     = map Some [PagesCreate [(''Name'', PTitle ''Alice'')] [],
                 PagesCreate [(''Name'', PTitle ''Bob'')] [],
                 PagesCreate [(''Name'', PTitle ''Bad'')] []]
   \<and> map_option (calls \<circ> snd) (exportToNotion flakyNotion threeRecords nameMapping [] ''3'' [] idle)
     = Some [PagesCreate [(''Name'', PTitle ''Alice'')] [],
             PagesCreate [(''Name'', PTitle ''Bob'')] [],
             PagesCreate [(''Name'', PTitle ''Bad'')] [],
             PagesCreate [(''Name'', PTitle ''Alice'')] [],
             PagesCreate [(''Name'', PTitle ''Bad'')] []]
   \<and> map_option fst (exportToNotion flakyNotion threeRecords nameMapping [] ''3'' [] idle)
     = Some (Inr ())"
  using C7_option_3_creates_every_record
          [of flakyNotion threeRecords nameMapping "[]" "[]" idle
              "[PagesCreate [(''Name'', PTitle ''Alice'')] [],
                PagesCreate [(''Name'', PTitle ''Bob'')] [],
                PagesCreate [(''Name'', PTitle ''Bad'')] []]"]
  by (simp add: nameMapping_def threeRecords_def flakyNotion_def idle_def
        createRequest_def buildPagePayload_def buildPropertyPayload_def
        stringValue_of_def addNonDuplicateRecords_def issue_def logLine_def)

lemma mapProperty_plain:
  "customizationOption \<noteq> ''2'' \<Longrightarrow>
   mapProperty header currentProperties customizationOption titleField st
     = Some (\<lparr>prop_name = header, prop_type = defaultType currentProperties titleField header\<rparr>, st)"
  by (auto simp: mapProperty_def defaultType_def split: option.splits)

lemma mapProperties_loop_plain:
  "customizationOption \<noteq> ''2'' \<Longrightarrow>
   mapProperties_loop headers currentProperties customizationOption titleField mapped st
     = Some ((\<lambda>h. if h \<in> set headers
                   then Some \<lparr>prop_name = h, prop_type = defaultType currentProperties titleField h\<rparr>
                   else mapped h), st)"
proof (induction headers arbitrary: mapped)
  case Nil
  then show ?case by simp
next
  case (Cons header headers)
  show ?case
    by (simp add: mapProperty_plain [OF Cons.prems] Cons.IH [OF Cons.prems]) (rule ext, simp)
qed

lemma filter_eq_single:
  "distinct xs \<Longrightarrow> x \<in> set xs \<Longrightarrow> (\<forall>y \<in> set xs. P y \<longleftrightarrow> y = x) \<Longrightarrow> filter P xs = [x]"
proof (induction xs)
  case Nil
  then show ?case by simp
next
  case (Cons a xs)
  show ?case
  proof (cases "a = x")
    case True
    with Cons.prems have "filter P xs = []"
      by (auto simp: filter_empty_conv)
    with True Cons.prems show ?thesis by simp
  next
    case False
    with Cons show ?thesis by auto
  qed
qed

lemma typeChoiceLoop_valid:
  assumes "parseInt typeChoice = Some i" and "1 \<le> i" and "i \<le> 20"
  shows "typeChoiceLoop (st\<lparr>stdin := typeChoice # rest\<rparr>)
         = Some (propertyTypes ! nat (i - 1), st\<lparr>stdin := rest\<rparr>)"
  using assms by (subst typeChoiceLoop.simps) (simp add: askQuestion_def propertyTypes_def)

lemma mapProperty_readOverride:
  "mapProperty header cur ''2'' tf st =
     (case readOverride st of
        None \<Rightarrow> None
      | Some (ov, st') \<Rightarrow>
          Some (\<lparr>prop_name = (case fst ov of None \<Rightarrow> header | Some n \<Rightarrow> n),
                 prop_type = (case snd ov of None \<Rightarrow> defaultType cur tf header | Some t \<Rightarrow> t)\<rparr>,
                st'))"
  by (auto simp: mapProperty_def readOverride_def defaultType_def Let_def
           split: option.splits prod.splits)

lemma mapProperties_loop_overrides:
  "(case mapProperties_loop headers cur ''2'' tf mapped st of
      None \<Rightarrow> typeOverrides_loop headers chosen st = None
    | Some (sp, st') \<Rightarrow>
        (\<exists>ch. typeOverrides_loop headers chosen st = Some (ch, st')
          \<and> (\<forall>h. if h \<in> set headers
                   then map_option prop_type (sp h) = Some (finalType cur tf ch h)
                   else sp h = mapped h \<and> ch h = chosen h)))"
proof (induction headers arbitrary: mapped chosen st)
  case Nil
  then show ?case by simp
next
  case (Cons header headers)
  show ?case
  proof (cases "readOverride st")
    case None
    then show ?thesis
      by (simp add: mapProperty_readOverride)
  next
    case (Some x)
    obtain ov st1 where x: "x = (ov, st1)" by (cases x)
    let ?mp = "\<lparr>prop_name = (case fst ov of None \<Rightarrow> header | Some n \<Rightarrow> n),
                prop_type = (case snd ov of None \<Rightarrow> defaultType cur tf header | Some t \<Rightarrow> t)\<rparr>"
    have m: "mapProperty header cur ''2'' tf st = Some (?mp, st1)"
      using Some x by (simp add: mapProperty_readOverride)
    note ih = Cons.IH [where mapped = "mapped(header \<mapsto> ?mp)" and st = st1
                         and chosen = "chosen(header := snd ov)"]
    show ?thesis
    proof (cases "mapProperties_loop headers cur ''2'' tf (mapped(header \<mapsto> ?mp)) st1")
      case None
      from ih have "typeOverrides_loop headers (chosen(header := snd ov)) st1 = None"
        unfolding None by (simp only: option.simps)
      with None m Some x show ?thesis by simp
    next
      case (Some y)
      obtain sp st' where y: "y = (sp, st')" by (cases y)
      from ih have "\<exists>ch. typeOverrides_loop headers (chosen(header := snd ov)) st1 = Some (ch, st')
          \<and> (\<forall>h. if h \<in> set headers
                   then map_option prop_type (sp h) = Some (finalType cur tf ch h)
                   else sp h = (mapped(header \<mapsto> ?mp)) h \<and> ch h = (chosen(header := snd ov)) h)"
        unfolding Some y by (simp only: option.simps prod.simps)
      then obtain ch where
        ch: "typeOverrides_loop headers (chosen(header := snd ov)) st1 = Some (ch, st')"
        and rel: "\<forall>h. if h \<in> set headers
                       then map_option prop_type (sp h) = Some (finalType cur tf ch h)
                       else sp h = (mapped(header \<mapsto> ?mp)) h \<and> ch h = (chosen(header := snd ov)) h"
        by blast
      have "\<forall>h. if h \<in> set (header # headers)
                 then map_option prop_type (sp h) = Some (finalType cur tf ch h)
                 else sp h = mapped h \<and> ch h = chosen h"
      proof
        fix h
        show "if h \<in> set (header # headers)
              then map_option prop_type (sp h) = Some (finalType cur tf ch h)
              else sp h = mapped h \<and> ch h = chosen h"
          using rel [rule_format, of h]
          by (cases "h \<in> set headers"; cases "h = header")
             (auto simp: finalType_def split: option.splits)
      qed
      with ch m Some y \<open>readOverride st = Some x\<close> x show ?thesis
        by simp
    qed
  qed
qed

lemma filter_single_iff:
  assumes "distinct xs" and "x \<in> set xs"
  shows "filter P xs = [x] \<longleftrightarrow> (\<forall>y \<in> set xs. P y \<longleftrightarrow> y = x)"
proof
  assume f: "filter P xs = [x]"
  then have "set (filter P xs) = {x}" by simp
  then show "\<forall>y \<in> set xs. P y \<longleftrightarrow> y = x" by auto
next
  assume "\<forall>y \<in> set xs. P y \<longleftrightarrow> y = x"
  with assms show "filter P xs = [x]" by (intro filter_eq_single)
qed

text \<open>
  \<^verbatim>\<open>mapProperties\<close> returns exactly when the overrides can be read, and then gives
  each header the type chosen for it, else its default type.
\<close>

lemma mapProperties_overrides:
  "(case mapProperties headers cur opt tf st of
      None \<Rightarrow> typeOverrides headers opt st = None
    | Some (sp, st') \<Rightarrow>
        (\<exists>ch. typeOverrides headers opt st = Some (ch, st')
          \<and> (\<forall>h \<in> set headers. map_option prop_type (sp h) = Some (finalType cur tf ch h))))"
proof (cases "opt = ''2''")
  case True
  note l = mapProperties_loop_overrides
            [where headers = headers and cur = cur and tf = tf and mapped = Map.empty
               and st = st and chosen = Map.empty]
  show ?thesis
  proof (cases "mapProperties_loop headers cur ''2'' tf Map.empty st")
    case None
    from l have "typeOverrides_loop headers Map.empty st = None"
      unfolding None by (simp only: option.simps)
    with None True show ?thesis
      by (simp add: mapProperties_def typeOverrides_def)
  next
    case (Some y)
    obtain sp st' where y: "y = (sp, st')" by (cases y)
    from l have "\<exists>ch. typeOverrides_loop headers Map.empty st = Some (ch, st')
          \<and> (\<forall>h. if h \<in> set headers
                   then map_option prop_type (sp h) = Some (finalType cur tf ch h)
                   else sp h = Map.empty h \<and> ch h = Map.empty h)"
      unfolding Some y by (simp only: option.simps prod.simps)
    then obtain ch where
      ch: "typeOverrides_loop headers Map.empty st = Some (ch, st')"
      and rel: "\<forall>h. if h \<in> set headers
                     then map_option prop_type (sp h) = Some (finalType cur tf ch h)
                     else sp h = Map.empty h \<and> ch h = Map.empty h"
      by blast
    have "\<forall>h \<in> set headers. map_option prop_type (sp h) = Some (finalType cur tf ch h)"
    proof
      fix h assume "h \<in> set headers"
      with rel [rule_format, of h]
      show "map_option prop_type (sp h) = Some (finalType cur tf ch h)"
        by (simp only: if_True)
    qed
    with ch have "\<exists>ch. typeOverrides headers opt st = Some (ch, st')
          \<and> (\<forall>h \<in> set headers. map_option prop_type (sp h) = Some (finalType cur tf ch h))"
      using True by (auto simp: typeOverrides_def)
    then show ?thesis
      unfolding mapProperties_def True Some y by (simp only: option.simps prod.simps)
  qed
next
  case False
  then show ?thesis
    by (simp add: mapProperties_def typeOverrides_def mapProperties_loop_plain finalType_def)
qed

lemma readOverride_rename:
  "toLowerCase (trim changeType) \<noteq> ''s'' \<Longrightarrow>
   readOverride (st\<lparr>stdin := newName # changeType # rest\<rparr>)
   = Some ((if trim newName \<noteq> [] then Some (trim newName) else None, None),
           st\<lparr>stdin := rest\<rparr>)"
  by (simp add: readOverride_def askQuestion_def)

lemma typeOverrides_loop_renames:
  "length answers = length headers \<Longrightarrow>
   \<forall>a \<in> set answers. toLowerCase (trim (snd a)) \<noteq> ''s'' \<Longrightarrow>
   typeOverrides_loop headers chosen
     (st\<lparr>stdin := concat (map (\<lambda>a. [fst a, snd a]) answers) @ rest\<rparr>)
   = Some (\<lambda>h. if h \<in> set headers then None else chosen h, st\<lparr>stdin := rest\<rparr>)"
proof (induction headers arbitrary: answers chosen st)
  case Nil
  then show ?case by simp
next
  case (Cons header headers)
  from Cons.prems(1) obtain a as where a: "answers = a # as"
    by (cases answers) simp_all
  from Cons.prems a have len: "length as = length headers"
    and no: "\<forall>a \<in> set as. toLowerCase (trim (snd a)) \<noteq> ''s''"
    and noa: "toLowerCase (trim (snd a)) \<noteq> ''s''"
    by simp_all
  let ?xs = "concat (map (\<lambda>a. [fst a, snd a]) as) @ rest"
  have r: "readOverride (st\<lparr>stdin := fst a # snd a # ?xs\<rparr>)
           = Some ((if trim (fst a) \<noteq> [] then Some (trim (fst a)) else None, None),
                   st\<lparr>stdin := ?xs\<rparr>)"
    using noa by (rule readOverride_rename)
  have ih: "typeOverrides_loop headers (chosen(header := None)) (st\<lparr>stdin := ?xs\<rparr>)
            = Some (\<lambda>h. if h \<in> set headers then None else (chosen(header := None)) h,
                    st\<lparr>stdin := rest\<rparr>)"
    using len no by (rule Cons.IH)
  have f: "(\<lambda>h. if h \<in> set headers then None else (chosen(header := None)) h)
           = (\<lambda>h. if h \<in> set (header # headers) then None else chosen h)"
    by (rule ext) simp
  show ?case
    unfolding a using r ih f by simp
qed

text \<open>
  When the overrides read leave the title field its type, give no other header the type
  \<^verbatim>\<open>title\<close>, and leave alone no other header that names a database property of type
  \<^verbatim>\<open>title\<close>, \<^verbatim>\<open>mapProperties\<close> returns a mapping with exactly one title.
\<close>

lemma one_title_of_overrides:
  assumes "tf \<in> set headers" and "distinct headers"
    and ov: "typeOverrides headers opt st = Some (chosen, st')"
    and c: "chosen tf = None \<or> chosen tf = Some ''title''"
    and d: "\<forall>h \<in> set headers. h \<noteq> tf \<longrightarrow>
              chosen h \<noteq> Some ''title'' \<and> (chosen h = None \<longrightarrow> cur h \<noteq> Some ''title'')"
  shows "\<exists>sp. mapProperties headers cur opt tf st = Some (sp, st')
              \<and> titleHeaders headers sp = [tf]"
proof -
  note m = mapProperties_overrides
             [where headers = headers and cur = cur and opt = opt and tf = tf and st = st]
  show ?thesis
  proof (cases "mapProperties headers cur opt tf st")
    case None
    from m have "typeOverrides headers opt st = None"
      unfolding None by (simp only: option.simps)
    with ov show ?thesis by simp
  next
    case (Some y)
    obtain sp st2 where y: "y = (sp, st2)" by (cases y)
    from m have "\<exists>ch. typeOverrides headers opt st = Some (ch, st2)
          \<and> (\<forall>h \<in> set headers. map_option prop_type (sp h) = Some (finalType cur tf ch h))"
      unfolding Some y by (simp only: option.simps prod.simps)
    with ov have st2: "st2 = st'"
      and ty: "\<forall>h \<in> set headers. map_option prop_type (sp h)
                 = Some (finalType cur tf chosen h)"
      by auto
    have "(map_option prop_type (sp h) = Some ''title'') \<longleftrightarrow> h = tf"
      if "h \<in> set headers" for h
    proof -
      from ty that have "map_option prop_type (sp h) = Some (finalType cur tf chosen h)"
        by (rule bspec)
      then have "(map_option prop_type (sp h) = Some ''title'')
                 \<longleftrightarrow> finalType cur tf chosen h = ''title''"
        by (simp only: option.inject)
      also have "\<dots> \<longleftrightarrow> h = tf"
        using c d that
        by (cases "h = tf") (auto simp: finalType_def defaultType_def split: option.splits)
      finally show ?thesis .
    qed
    then have "titleHeaders headers sp = [tf]"
      unfolding titleHeaders_def filter_single_iff [OF assms(2,1)] by blast
    with Some y st2 show ?thesis by simp
  qed
qed

text \<open>
  C5, as the claim states it, fails. With two headers and \<^verbatim>\<open>name\<close> as the title
  field: the answers that retype \<^verbatim>\<open>name\<close> to type 1 (\<^verbatim>\<open>rich_text\<close>) leave no header
  of type \<^verbatim>\<open>title\<close>; the answers that retype \<^verbatim>\<open>email\<close> to type 2 (\<^verbatim>\<open>title\<close>) give
  two; and so does, with no customization at all, a database in which \<^verbatim>\<open>email\<close> is
  already the title property.
\<close>

theorem C5_title_override_counterexample:
  "map_option (titleHeaders twoHeaders \<circ> fst)
     (mapProperties twoHeaders Map.empty ''2'' ''name'' (typing ['''', ''s'', ''1'', '''', '''']))
     = Some []
   \<and> map_option (titleHeaders twoHeaders \<circ> fst)
     (mapProperties twoHeaders Map.empty ''2'' ''name'' (typing ['''', '''', '''', ''s'', ''2'']))
     = Some [''name'', ''email'']
   \<and> map_option (titleHeaders twoHeaders \<circ> fst)
     (mapProperties twoHeaders emailTitleSchema ''1'' ''name'' (typing []))
     = Some [''name'', ''email'']"
  by (simp add: mapProperties_def mapProperty_def twoHeaders_def typing_def emailTitleSchema_def
        askQuestion_def trim_def isWhiteSpace_def toLowerCase_def toLowerChar_def parseInt_def
        digit_val_def propertyTypes_def titleHeaders_def typeChoiceLoop.simps)

text \<open>
  C5, amended: when the title field is one of the headers (each listed once),
  \<^verbatim>\<open>mapProperties\<close> returns exactly when the overrides can be read, and in the mapping
  it returns every header has the type chosen for it, or its default type when none is
  chosen. So exactly the title field has the type \<^verbatim>\<open>title\<close> exactly when the final
  types say so, and in particular for every sequence of overrides, renames and
  retypings alike, in which the title field is not retyped to another type, no other
  header is given the type \<^verbatim>\<open>title\<close>, and no other header whose type is left alone
  names a database property of type \<^verbatim>\<open>title\<close>. Two such runs: without customization,
  and with a customization that only renames (for each header a name and an answer
  other than \<^verbatim>\<open>s\<close>), \<^verbatim>\<open>mapProperties\<close> returns, having read just these answers, a
  mapping in which exactly the title field has the type \<^verbatim>\<open>title\<close>, provided no other
  header names a database property of type \<^verbatim>\<open>title\<close>. A type chosen for a header
  always takes effect, whatever the header and the type: an override that retypes the
  title field away, or gives a second header the type \<^verbatim>\<open>title\<close>, is not refused.
\<close>

theorem C5_one_title_unless_retyped:
  assumes "titleField \<in> set headers" and "distinct headers"
  shows "(mapProperties headers currentProperties customizationOption titleField st = None
          \<longleftrightarrow> typeOverrides headers customizationOption st = None)
       \<and> (\<forall>selectedProperties st'.
             mapProperties headers currentProperties customizationOption titleField st
               = Some (selectedProperties, st') \<longrightarrow>
             (\<exists>chosen.
                typeOverrides headers customizationOption st = Some (chosen, st')
                \<and> (\<forall>h \<in> set headers.
                      map_option prop_type (selectedProperties h)
                      = Some (finalType currentProperties titleField chosen h))
                \<and> (titleHeaders headers selectedProperties = [titleField]
                     \<longleftrightarrow> (\<forall>h \<in> set headers.
                            finalType currentProperties titleField chosen h = ''title''
                            \<longleftrightarrow> h = titleField))
                \<and> ((chosen titleField = None \<or> chosen titleField = Some ''title'')
                     \<and> (\<forall>h \<in> set headers. h \<noteq> titleField \<longrightarrow>
                           chosen h \<noteq> Some ''title''
                           \<and> (chosen h = None \<longrightarrow> currentProperties h \<noteq> Some ''title''))
                    \<longrightarrow> titleHeaders headers selectedProperties = [titleField])))
       \<and> (customizationOption \<noteq> ''2''
            \<and> (\<forall>h \<in> set headers. h \<noteq> titleField \<longrightarrow> currentProperties h \<noteq> Some ''title'')
          \<longrightarrow> (\<exists>selectedProperties.
                 mapProperties headers currentProperties customizationOption titleField st
                   = Some (selectedProperties, st)
                 \<and> titleHeaders headers selectedProperties = [titleField]))
       \<and> (length answers = length headers
            \<and> (\<forall>a \<in> set answers. toLowerCase (trim (snd a)) \<noteq> ''s'')
            \<and> (\<forall>h \<in> set headers. h \<noteq> titleField \<longrightarrow> currentProperties h \<noteq> Some ''title'')
          \<longrightarrow> (\<exists>selectedProperties.
                 mapProperties headers currentProperties ''2'' titleField
                   (st\<lparr>stdin := concat (map (\<lambda>a. [fst a, snd a]) answers) @ rest\<rparr>)
                   = Some (selectedProperties, st\<lparr>stdin := rest\<rparr>)
                 \<and> titleHeaders headers selectedProperties = [titleField]))
       \<and> (toLowerCase (trim changeType) = ''s'' \<and> parseInt typeChoice = Some i
            \<and> 1 \<le> i \<and> i \<le> 20 \<longrightarrow>
          mapProperty header currentProperties ''2'' titleField
            (st\<lparr>stdin := newName # changeType # typeChoice # rest\<rparr>)
          = Some (\<lparr>prop_name = (if trim newName \<noteq> [] then trim newName else header),
                   prop_type = propertyTypes ! nat (i - 1)\<rparr>,
                  st\<lparr>stdin := rest\<rparr>))"
proof (intro conjI allI impI)
  note m = mapProperties_overrides
             [where headers = headers and cur = currentProperties and opt = customizationOption
                and tf = titleField and st = st]
  show "mapProperties headers currentProperties customizationOption titleField st = None
        \<longleftrightarrow> typeOverrides headers customizationOption st = None"
  proof (cases "mapProperties headers currentProperties customizationOption titleField st")
    case None
    from m have "typeOverrides headers customizationOption st = None"
      unfolding None by (simp only: option.simps)
    with None show ?thesis by simp
  next
    case (Some y)
    obtain sp st' where y: "y = (sp, st')" by (cases y)
    from m have "\<exists>ch. typeOverrides headers customizationOption st = Some (ch, st')
          \<and> (\<forall>h \<in> set headers. map_option prop_type (sp h)
                 = Some (finalType currentProperties titleField ch h))"
      unfolding Some y by (simp only: option.simps prod.simps)
    with Some show ?thesis by auto
  qed
  fix selectedProperties st'
  assume r: "mapProperties headers currentProperties customizationOption titleField st
             = Some (selectedProperties, st')"
  from m have "\<exists>ch. typeOverrides headers customizationOption st = Some (ch, st')
        \<and> (\<forall>h \<in> set headers. map_option prop_type (selectedProperties h)
               = Some (finalType currentProperties titleField ch h))"
    unfolding r by (simp only: option.simps prod.simps)
  then obtain chosen where
    ch: "typeOverrides headers customizationOption st = Some (chosen, st')"
    and ty: "\<forall>h \<in> set headers. map_option prop_type (selectedProperties h)
               = Some (finalType currentProperties titleField chosen h)"
    by blast
  have iff: "titleHeaders headers selectedProperties = [titleField]
             \<longleftrightarrow> (\<forall>h \<in> set headers.
                    finalType currentProperties titleField chosen h = ''title''
                    \<longleftrightarrow> h = titleField)"
  proof -
    have eq: "(map_option prop_type (selectedProperties h) = Some ''title'')
              \<longleftrightarrow> (finalType currentProperties titleField chosen h = ''title'')"
      if "h \<in> set headers" for h
    proof -
      from ty that have "map_option prop_type (selectedProperties h)
                         = Some (finalType currentProperties titleField chosen h)"
        by (rule bspec)
      then show ?thesis by (simp only: option.inject)
    qed
    have "(\<forall>h \<in> set headers.
             (map_option prop_type (selectedProperties h) = Some ''title'') \<longleftrightarrow> h = titleField)
          \<longleftrightarrow> (\<forall>h \<in> set headers.
                 finalType currentProperties titleField chosen h = ''title'' \<longleftrightarrow> h = titleField)"
      by (rule ball_cong, rule refl, simp only: eq)
    then show ?thesis
      unfolding titleHeaders_def filter_single_iff [OF assms(2,1)] .
  qed
  have suff: "titleHeaders headers selectedProperties = [titleField]"
    if c: "(chosen titleField = None \<or> chosen titleField = Some ''title'')
           \<and> (\<forall>h \<in> set headers. h \<noteq> titleField \<longrightarrow>
                 chosen h \<noteq> Some ''title''
                 \<and> (chosen h = None \<longrightarrow> currentProperties h \<noteq> Some ''title''))"
  proof -
    have "finalType currentProperties titleField chosen h = ''title'' \<longleftrightarrow> h = titleField"
      if "h \<in> set headers" for h
      using c that
      by (cases "h = titleField")
         (auto simp: finalType_def defaultType_def split: option.splits)
    with iff show ?thesis by blast
  qed
  show "\<exists>chosen.
          typeOverrides headers customizationOption st = Some (chosen, st')
          \<and> (\<forall>h \<in> set headers.
                map_option prop_type (selectedProperties h)
                = Some (finalType currentProperties titleField chosen h))
          \<and> (titleHeaders headers selectedProperties = [titleField]
               \<longleftrightarrow> (\<forall>h \<in> set headers.
                      finalType currentProperties titleField chosen h = ''title''
                      \<longleftrightarrow> h = titleField))
          \<and> ((chosen titleField = None \<or> chosen titleField = Some ''title'')
               \<and> (\<forall>h \<in> set headers. h \<noteq> titleField \<longrightarrow>
                     chosen h \<noteq> Some ''title''
                     \<and> (chosen h = None \<longrightarrow> currentProperties h \<noteq> Some ''title''))
              \<longrightarrow> titleHeaders headers selectedProperties = [titleField])"
  proof (intro exI conjI impI)
    show "typeOverrides headers customizationOption st = Some (chosen, st')"
      by (rule ch)
    show "\<forall>h \<in> set headers.
            map_option prop_type (selectedProperties h)
            = Some (finalType currentProperties titleField chosen h)"
      by (rule ty)
    show "titleHeaders headers selectedProperties = [titleField]
          \<longleftrightarrow> (\<forall>h \<in> set headers.
                 finalType currentProperties titleField chosen h = ''title''
                 \<longleftrightarrow> h = titleField)"
      by (rule iff)
  next
    assume "(chosen titleField = None \<or> chosen titleField = Some ''title'')
            \<and> (\<forall>h \<in> set headers. h \<noteq> titleField \<longrightarrow>
                  chosen h \<noteq> Some ''title''
                  \<and> (chosen h = None \<longrightarrow> currentProperties h \<noteq> Some ''title''))"
    then show "titleHeaders headers selectedProperties = [titleField]"
      by (rule suff)
  qed
next
  assume p: "customizationOption \<noteq> ''2''
             \<and> (\<forall>h \<in> set headers. h \<noteq> titleField \<longrightarrow> currentProperties h \<noteq> Some ''title'')"
  then have ov: "typeOverrides headers customizationOption st = Some (Map.empty, st)"
    by (simp add: typeOverrides_def)
  have c: "Map.empty titleField = None \<or> Map.empty titleField = Some ''title''"
    by simp
  from p have d: "\<forall>h \<in> set headers. h \<noteq> titleField \<longrightarrow>
                    Map.empty h \<noteq> Some ''title''
                    \<and> (Map.empty h = None \<longrightarrow> currentProperties h \<noteq> Some ''title'')"
    by simp
  from assms ov c d
  show "\<exists>selectedProperties.
          mapProperties headers currentProperties customizationOption titleField st
            = Some (selectedProperties, st)
          \<and> titleHeaders headers selectedProperties = [titleField]"
    by (rule one_title_of_overrides)
next
  let ?typed = "st\<lparr>stdin := concat (map (\<lambda>a. [fst a, snd a]) answers) @ rest\<rparr>"
  let ?none = "\<lambda>h. if h \<in> set headers then None else Map.empty h"
  assume r: "length answers = length headers
             \<and> (\<forall>a \<in> set answers. toLowerCase (trim (snd a)) \<noteq> ''s'')
             \<and> (\<forall>h \<in> set headers. h \<noteq> titleField \<longrightarrow> currentProperties h \<noteq> Some ''title'')"
  then have "typeOverrides_loop headers Map.empty ?typed = Some (?none, st\<lparr>stdin := rest\<rparr>)"
    by (intro typeOverrides_loop_renames) simp_all
  then have ov: "typeOverrides headers ''2'' ?typed = Some (?none, st\<lparr>stdin := rest\<rparr>)"
    by (simp add: typeOverrides_def)
  have c: "?none titleField = None \<or> ?none titleField = Some ''title''"
    by simp
  from r have d: "\<forall>h \<in> set headers. h \<noteq> titleField \<longrightarrow>
                    ?none h \<noteq> Some ''title''
                    \<and> (?none h = None \<longrightarrow> currentProperties h \<noteq> Some ''title'')"
    by simp
  from assms ov c d
  show "\<exists>selectedProperties.
          mapProperties headers currentProperties ''2'' titleField ?typed
            = Some (selectedProperties, st\<lparr>stdin := rest\<rparr>)
          \<and> titleHeaders headers selectedProperties = [titleField]"
    by (rule one_title_of_overrides)
next
  assume a: "toLowerCase (trim changeType) = ''s'' \<and> parseInt typeChoice = Some i
            \<and> 1 \<le> i \<and> i \<le> 20"
  then have "typeChoiceLoop (st\<lparr>stdin := typeChoice # rest\<rparr>)
             = Some (propertyTypes ! nat (i - 1), st\<lparr>stdin := rest\<rparr>)"
    by (intro typeChoiceLoop_valid) simp_all
  with a show "mapProperty header currentProperties ''2'' titleField
            (st\<lparr>stdin := newName # changeType # typeChoice # rest\<rparr>)
          = Some (\<lparr>prop_name = (if trim newName \<noteq> [] then trim newName else header),
                   prop_type = propertyTypes ! nat (i - 1)\<rparr>,
                  st\<lparr>stdin := rest\<rparr>)"
    by (simp add: mapProperty_def askQuestion_def Let_def)
qed

text \<open>
  C5, amended, at two headers with customization. The answers that rename both
  headers and retype \<^verbatim>\<open>email\<close> to type 11 (\<^verbatim>\<open>email\<close>) override no type for
  \<^verbatim>\<open>name\<close> and the type of \<^verbatim>\<open>email\<close>, and \<^verbatim>\<open>name\<close> stays the only title. The
  answers that only rename both headers keep \<^verbatim>\<open>name\<close> the only title. And the
  answers that retype a header to type 1 give it \<^verbatim>\<open>rich_text\<close>, title field or not.
\<close>

theorem C5_one_title_unless_retyped_witness:
  "titleHeaders twoHeaders
     [''name'' \<mapsto> \<lparr>prop_name = ''Nombre'', prop_type = ''title''\<rparr>,
      ''email'' \<mapsto> \<lparr>prop_name = ''Correo'', prop_type = ''email''\<rparr>] = [''name'']
   \<and> ''name'' \<in> set twoHeaders \<and> distinct twoHeaders
   \<and> mapProperties twoHeaders Map.empty ''2'' ''name''
        (typing [''Nombre'', [], ''Correo'', ''s'', ''11''])
       = Some ([''name'' \<mapsto> \<lparr>prop_name = ''Nombre'', prop_type = ''title''\<rparr>,
                ''email'' \<mapsto> \<lparr>prop_name = ''Correo'', prop_type = ''email''\<rparr>],
               typing [])
   \<and> map_option (\<lambda>r. map (fst r) twoHeaders)
       (typeOverrides twoHeaders ''2'' (typing [''Nombre'', [], ''Correo'', ''s'', ''11'']))
       = Some [None, Some ''email'']
   \<and> map_option (titleHeaders twoHeaders \<circ> fst)
       (mapProperties twoHeaders Map.empty ''2'' ''name''
          (typing [''Nombre'', [], ''Correo'', []])) = Some [''name'']
   \<and> toLowerCase (trim '' S '') = ''s'' \<and> parseInt ''1'' = Some 1
   \<and> mapProperty ''name'' Map.empty ''2'' ''name'' (typing [''Nombre '', '' S '', ''1''])
       = Some (\<lparr>prop_name = ''Nombre'', prop_type = ''rich_text''\<rparr>, typing [])"
proof -
  let ?typed = "typing [''Nombre'', [], ''Correo'', ''s'', ''11'']"
  let ?mapping = "[''name'' \<mapsto> \<lparr>prop_name = ''Nombre'', prop_type = ''title''\<rparr>,
                   ''email'' \<mapsto> \<lparr>prop_name = ''Correo'', prop_type = ''email''\<rparr>]"
  note evaluation = twoHeaders_def typing_def trim_def isWhiteSpace_def toLowerCase_def
    toLowerChar_def parseInt_def digit_val_def propertyTypes_def mapProperties_def
    mapProperty_def typeChoiceLoop.simps typeOverrides_def readOverride_def
    askQuestion_def
  note at = C5_one_title_unless_retyped
    [where titleField = "''name''" and headers = twoHeaders
       and currentProperties = Map.empty and customizationOption = "''2''"
       and st = ?typed and answers = "[(''Nombre'', []), (''Correo'', [])]"
       and changeType = "'' S ''" and typeChoice = "''1''" and i = 1
       and header = "''name''" and newName = "''Nombre ''" and rest = "[]"]
  have title: "''name'' \<in> set twoHeaders" and once: "distinct twoHeaders"
    by (simp_all add: twoHeaders_def)
  have run: "mapProperties twoHeaders Map.empty ''2'' ''name'' ?typed
             = Some (?mapping, typing [])"
    by (simp add: evaluation)
  have overrides: "map_option (\<lambda>r. map (fst r) twoHeaders)
                     (typeOverrides twoHeaders ''2'' ?typed) = Some [None, Some ''email'']"
    by (simp add: evaluation)
  from at [OF title once, THEN conjunct2, THEN conjunct1, THEN spec, THEN spec, THEN mp,
           OF run]
  obtain chosen where
    read: "typeOverrides twoHeaders ''2'' ?typed = Some (chosen, typing [])"
    and enough: "(chosen ''name'' = None \<or> chosen ''name'' = Some ''title'')
                 \<and> (\<forall>h \<in> set twoHeaders. h \<noteq> ''name'' \<longrightarrow>
                       chosen h \<noteq> Some ''title''
                       \<and> (chosen h = None \<longrightarrow> Map.empty h \<noteq> Some ''title''))
                 \<longrightarrow> titleHeaders twoHeaders ?mapping = [''name'']"
    by blast
  from overrides have chosen: "chosen ''name'' = None" "chosen ''email'' = Some ''email''"
    unfolding read by (simp_all add: twoHeaders_def)
  have one: "titleHeaders twoHeaders ?mapping = [''name'']"
    by (rule enough [THEN mp]) (simp add: chosen twoHeaders_def)
  have others: "''name'' \<in> set twoHeaders \<and> distinct twoHeaders
    \<and> mapProperties twoHeaders Map.empty ''2'' ''name'' ?typed = Some (?mapping, typing [])
    \<and> map_option (\<lambda>r. map (fst r) twoHeaders)
        (typeOverrides twoHeaders ''2'' ?typed) = Some [None, Some ''email'']
    \<and> map_option (titleHeaders twoHeaders \<circ> fst)
        (mapProperties twoHeaders Map.empty ''2'' ''name''
           (typing [''Nombre'', [], ''Correo'', []])) = Some [''name'']
    \<and> toLowerCase (trim '' S '') = ''s'' \<and> parseInt ''1'' = Some 1
    \<and> mapProperty ''name'' Map.empty ''2'' ''name'' (typing [''Nombre '', '' S '', ''1''])
        = Some (\<lparr>prop_name = ''Nombre'', prop_type = ''rich_text''\<rparr>, typing [])"
    using at [THEN conjunct1] at [THEN conjunct2, THEN conjunct2]
    by (simp add: evaluation titleHeaders_def)
  from one others show ?thesis ..
qed

text \<open>
  C2, as the claim states it, fails. Notion rejects the schema update; the user has
  chosen option 3 and no customization. \<^verbatim>\<open>main\<close> returns normally: the rejection is
  printed by \<^verbatim>\<open>ensurePropertiesExist\<close>, no error reaches the \<^verbatim>\<open>catch\<close> of
  \<^verbatim>\<open>main\<close>, and the document is sent to Notion after the rejected update.
\<close>

theorem C2_schema_rejection_counterexample:
  "main rejectingSchemaNotion aliceOnly [''name''] ''name'' (typing [''3'', ''1''])
     = Some \<lparr>stdin = [],
             console = [ErrorEnsureProperties (ApiError ''validation_error'')],
             calls = [DatabasesRetrieve, DatabasesRetrieve,
                      DatabasesUpdate [(''name'', ''title'')],
                      PagesCreate [(''name'', PTitle ''Alice'')] []]\<rparr>"
  by (simp add: main_def mainExport_def askDuplicateCheckFields_def askQuestion_def
        optionLoop.simps
        rejectingSchemaNotion_def aliceOnly_def typing_def trim_def isWhiteSpace_def
        mapProperties_def mapProperty_def ensurePropertiesExist_def spread_def
        exportToNotion_def addNonDuplicateRecords_def buildPagePayload_def
        buildPropertyPayload_def stringValue_of_def issue_def logLine_def)

text \<open>
  C2, amended: when Notion rejects the schema update that \<^verbatim>\<open>ensurePropertiesExist\<close>
  sends, \<^verbatim>\<open>ensurePropertiesExist\<close> catches the error, prints it and returns the empty
  list of new properties; the caller gets no error, and \<^verbatim>\<open>main\<close> goes on to
  \<^verbatim>\<open>exportToNotion\<close> with no new property: the run is what the export makes of it.
\<close>

theorem C2_schema_rejection_is_printed:
  assumes "databases_retrieve notion (calls st) = Inr currentProperties"
    and "propertiesToAdd_loop headers selectedProperties currentProperties [] []
         = Inr (propertiesToAdd, propertiesToUpdate)"
    and "propertiesToAdd \<noteq> [] \<or> propertiesToUpdate \<noteq> []"
    and "databases_update notion (calls st @ [DatabasesRetrieve])
           (spread propertiesToAdd propertiesToUpdate) = Inl e"
    and "databases_retrieve notion (calls st0) = Inr currentProperties0"
    and "optionLoop [''1'', ''2''] (issue DatabasesRetrieve st0) = Some (mapOption, st1)"
    and "mapProperties headers currentProperties0 mapOption titleField st1
         = Some (selectedProperties, st)"
  shows "ensurePropertiesExist notion headers selectedProperties st
         = ([], st\<lparr>calls := calls st @ [DatabasesRetrieve,
                                          DatabasesUpdate (spread propertiesToAdd propertiesToUpdate)],
                    console := console st @ [ErrorEnsureProperties (ApiError e)]\<rparr>)
       \<and> mainExport notion data headers titleField duplicateCheckFields duplicateOption st0
         = (case exportToNotion notion data selectedProperties duplicateCheckFields
                   duplicateOption []
                   (st\<lparr>calls := calls st @ [DatabasesRetrieve,
                                   DatabasesUpdate (spread propertiesToAdd propertiesToUpdate)],
                       console := console st @ [ErrorEnsureProperties (ApiError e)]\<rparr>) of
              None \<Rightarrow> None
            | Some (Inl err, st4) \<Rightarrow> Some (logLine (ErrorGeneral err) st4)
            | Some (Inr u, st4) \<Rightarrow> Some st4)"
proof -
  have ens: "ensurePropertiesExist notion headers selectedProperties st
         = ([], st\<lparr>calls := calls st @ [DatabasesRetrieve,
                                          DatabasesUpdate (spread propertiesToAdd propertiesToUpdate)],
                    console := console st @ [ErrorEnsureProperties (ApiError e)]\<rparr>)"
    using assms(1-4) by (auto simp: ensurePropertiesExist_def issue_def logLine_def)
  show ?thesis
    using ens assms(5-7) by (simp add: mainExport_def)
qed

text \<open>
  C2, amended, at the service that rejects every change of the schema: the rejection
  is printed, the list of new properties is empty, and the run goes on to create the
  document.
\<close>

theorem C2_schema_rejection_is_printed_witness:
  "databases_retrieve rejectingSchemaNotion (calls (typing [''1''])) = Inr Map.empty
   \<and> optionLoop [''1'', ''2''] (issue DatabasesRetrieve (typing [''1'']))
       = Some (''1'', \<lparr>stdin = [], console = [], calls = [DatabasesRetrieve]\<rparr>)
   \<and> propertiesToAdd_loop [''name''] [''name'' \<mapsto> \<lparr>prop_name = ''name'', prop_type = ''title''\<rparr>]
         Map.empty [] []
       = Inr ([(''name'', ''title'')], [])
   \<and> databases_update rejectingSchemaNotion ([DatabasesRetrieve] @ [DatabasesRetrieve])
        (spread [(''name'', ''title'')] []) = Inl ''validation_error''
   \<and> ensurePropertiesExist rejectingSchemaNotion [''name'']
         [''name'' \<mapsto> \<lparr>prop_name = ''name'', prop_type = ''title''\<rparr>]
         \<lparr>stdin = [], console = [], calls = [DatabasesRetrieve]\<rparr>
       = ([], \<lparr>stdin = [],
               console = [ErrorEnsureProperties (ApiError ''validation_error'')],
               calls = [DatabasesRetrieve, DatabasesRetrieve,
                        DatabasesUpdate [(''name'', ''title'')]]\<rparr>)
   \<and> mainExport rejectingSchemaNotion aliceOnly [''name''] ''name'' [] ''3'' (typing [''1''])
       = Some \<lparr>stdin = [],
               console = [ErrorEnsureProperties (ApiError ''validation_error'')],
               calls = [DatabasesRetrieve, DatabasesRetrieve,
                        DatabasesUpdate [(''name'', ''title'')],
                        PagesCreate [(''name'', PTitle ''Alice'')] []]\<rparr>"
  using C2_schema_rejection_is_printed
          [of rejectingSchemaNotion "\<lparr>stdin = [], console = [], calls = [DatabasesRetrieve]\<rparr>"
              Map.empty "[''name'']" "[''name'' \<mapsto> \<lparr>prop_name = ''name'', prop_type = ''title''\<rparr>]"
              "[(''name'', ''title'')]" "[]" "''validation_error''"
              "typing [''1'']" Map.empty "''1''"
              "\<lparr>stdin = [], console = [], calls = [DatabasesRetrieve]\<rparr>"
              "''name''" aliceOnly "[]" "''3''"]
  by (simp add: rejectingSchemaNotion_def typing_def spread_def aliceOnly_def
        askQuestion_def trim_def isWhiteSpace_def issue_def logLine_def
        mapProperties_def mapProperty_def optionLoop.simps
        exportToNotion_def addNonDuplicateRecords_def buildPagePayload_def
        buildPropertyPayload_def stringValue_of_def)

text \<open>The prompts send nothing to Notion.\<close>

lemma optionLoop_calls:
  "optionLoop allowed st = Some (answer, st') \<Longrightarrow> calls st' = calls st"
proof (induction allowed st rule: optionLoop.induct)
  case (1 allowed st)
  show ?case
  proof (cases "askQuestion st")
    case None
    with "1.prems" show ?thesis by (simp add: optionLoop.simps [of allowed st])
  next
    case (Some x)
    obtain a st1 where x: "x = (a, st1)" by (cases x)
    have c1: "calls st1 = calls st"
      using Some x by (auto simp: askQuestion_def split: list.splits)
    show ?thesis
    proof (cases "trim a \<in> set allowed")
      case True
      with "1.prems" Some x c1 show ?thesis by (simp add: optionLoop.simps [of allowed st])
    next
      case False
      with "1.prems" Some x have "optionLoop allowed (logLine WarnInvalidOption st1) = Some (answer, st')"
        by (simp add: optionLoop.simps [of allowed st])
      from "1.IH" [OF Some x [symmetric] False this] c1 show ?thesis
        by (simp add: logLine_def)
    qed
  qed
qed

lemma typeChoiceLoop_calls:
  "typeChoiceLoop st = Some (chosen, st') \<Longrightarrow> calls st' = calls st"
proof (induction st rule: typeChoiceLoop.induct)
  case (1 st)
  show ?case
  proof (cases "askQuestion st")
    case None
    with "1.prems" show ?thesis by (simp add: typeChoiceLoop.simps [of st])
  next
    case (Some x)
    obtain a st1 where x: "x = (a, st1)" by (cases x)
    have c1: "calls st1 = calls st"
      using Some x by (auto simp: askQuestion_def split: list.splits)
    show ?thesis
    proof (cases "parseInt a")
      case None
      with "1.prems" Some x have "typeChoiceLoop (logLine WarnInvalidSelection st1) = Some (chosen, st')"
        by (simp add: typeChoiceLoop.simps [of st])
      from "1.IH"(1) [OF Some x [symmetric] None this] c1 show ?thesis
        by (simp add: logLine_def)
    next
      case (Some i)
      note i = this
      show ?thesis
      proof (cases "1 \<le> i \<and> i \<le> int (length propertyTypes)")
        case True
        with "1.prems" \<open>askQuestion st = Some x\<close> x i c1 show ?thesis
          by (simp add: typeChoiceLoop.simps [of st])
      next
        case False
        with "1.prems" \<open>askQuestion st = Some x\<close> x i
        have "typeChoiceLoop (logLine WarnInvalidSelection st1) = Some (chosen, st')"
          by (simp add: typeChoiceLoop.simps [of st])
        from "1.IH"(2) [OF \<open>askQuestion st = Some x\<close> x [symmetric] i False this] c1 show ?thesis
          by (simp add: logLine_def)
      qed
    qed
  qed
qed

lemma askQuestion_calls: "askQuestion st = Some (a, st') \<Longrightarrow> calls st' = calls st"
  by (auto simp: askQuestion_def split: list.splits)

lemma mapProperty_calls:
  "mapProperty header cur opt tf st = Some (mp, st') \<Longrightarrow> calls st' = calls st"
  unfolding mapProperty_def Let_def
  by (auto split: if_splits option.splits prod.splits
           dest!: askQuestion_calls typeChoiceLoop_calls)

lemma mapProperties_loop_calls_dom:
  "mapProperties_loop headers cur opt tf mapped st = Some (sp, st') \<Longrightarrow>
   calls st' = calls st \<and> dom sp = dom mapped \<union> set headers"
proof (induction headers arbitrary: mapped st)
  case Nil
  then show ?case by simp
next
  case (Cons header headers)
  from Cons.prems obtain mp st1 where
    m: "mapProperty header cur opt tf st = Some (mp, st1)"
    and r: "mapProperties_loop headers cur opt tf (mapped(header \<mapsto> mp)) st1 = Some (sp, st')"
    by (auto split: option.splits)
  from Cons.IH [OF r] mapProperty_calls [OF m] show ?case
    by auto
qed

text \<open>\<^verbatim>\<open>ensurePropertiesExist\<close> reads and updates the schema; it sends nothing else.\<close>

lemma ensurePropertiesExist_calls:
  "ensurePropertiesExist notion headers sp st = (np, st') \<Longrightarrow>
   \<exists>sent. calls st' = calls st @ sent \<and> (\<forall>c \<in> set sent. \<not> isDatabasesQuery c)"
  unfolding ensurePropertiesExist_def Let_def
  by (auto simp: issue_def logLine_def split: sum.splits prod.splits if_splits)

text \<open>The two passes send create requests only, also when a payload cannot be built.\<close>

lemma createRecords_only_creates:
  "createRecords notion records sp failed st = (r, st') \<Longrightarrow>
   \<exists>sent. calls st' = calls st @ sent \<and> (\<forall>c \<in> set sent. isPagesCreate c)"
proof (induction records arbitrary: failed st)
  case Nil
  then show ?case by simp
next
  case (Cons e records)
  show ?case
  proof (cases "buildPagePayload e sp")
    case (Inl err)
    with Cons.prems show ?thesis by simp
  next
    case (Inr pc)
    obtain props children where pc: "pc = (props, children)" by (cases pc)
    show ?thesis
    proof (cases "pages_create notion (calls st) props children")
      case (Inl a)
      let ?st1 = "logLine (ErrorAddRecord (ApiError a)) (issue (PagesCreate props children) st)"
      from Cons.prems Inr pc Inl
      have "createRecords notion records sp (failed @ [e]) ?st1 = (r, st')"
        by simp
      from Cons.IH [OF this] show ?thesis
        by (auto simp: issue_def logLine_def)
    next
      case (Inr u)
      let ?st1 = "issue (PagesCreate props children) st"
      from Cons.prems \<open>buildPagePayload e sp = Inr pc\<close> pc Inr
      have "createRecords notion records sp failed ?st1 = (r, st')"
        by simp
      from Cons.IH [OF this] show ?thesis
        by (auto simp: issue_def)
    qed
  qed
qed

lemma retryRecords_only_creates:
  "retryRecords notion records sp failed st = (r, st') \<Longrightarrow>
   \<exists>sent. calls st' = calls st @ sent \<and> (\<forall>c \<in> set sent. isPagesCreate c)"
proof (induction records arbitrary: failed st)
  case Nil
  then show ?case by simp
next
  case (Cons e records)
  show ?case
  proof (cases "buildPagePayload e sp")
    case (Inl err)
    with Cons.prems show ?thesis by simp
  next
    case (Inr pc)
    obtain props children where pc: "pc = (props, children)" by (cases pc)
    show ?thesis
    proof (cases "pages_create notion (calls st) props children")
      case (Inl a)
      let ?st1 = "logLine (ErrorRetry (ApiError a)) (issue (PagesCreate props children) st)"
      from Cons.prems Inr pc Inl
      have "retryRecords notion records sp (failed @ [e]) ?st1 = (r, st')"
        by simp
      from Cons.IH [OF this] show ?thesis
        by (auto simp: issue_def logLine_def)
    next
      case (Inr u)
      let ?st1 = "issue (PagesCreate props children) st"
      from Cons.prems \<open>buildPagePayload e sp = Inr pc\<close> pc Inr
      have "retryRecords notion records sp failed ?st1 = (r, st')"
        by simp
      from Cons.IH [OF this] show ?thesis
        by (auto simp: issue_def)
    qed
  qed
qed

lemma addNonDuplicateRecords_only_creates:
  assumes "addNonDuplicateRecords notion records sp st = (r, st')"
  shows "\<exists>sent. calls st' = calls st @ sent \<and> (\<forall>c \<in> set sent. isPagesCreate c)"
proof (cases "createRecords notion records sp [] st")
  case (Pair r1 st1)
  from createRecords_only_creates [OF Pair] obtain sent1 where
    s1: "calls st1 = calls st @ sent1" "\<forall>c \<in> set sent1. isPagesCreate c" by blast
  show ?thesis
  proof (cases r1)
    case (Inl err)
    with assms Pair s1 show ?thesis
      by (auto simp: addNonDuplicateRecords_def)
  next
    case (Inr failedRecords)
    show ?thesis
    proof (cases "length failedRecords > 0")
      case False
      with assms Pair Inr s1 show ?thesis
        by (auto simp: addNonDuplicateRecords_def)
    next
      case True
      obtain r2 st2 where
        p2: "retryRecords notion failedRecords sp [] (logLine WarnRetrying st1) = (r2, st2)"
        by (cases "retryRecords notion failedRecords sp [] (logLine WarnRetrying st1)")
      from retryRecords_only_creates [OF p2] obtain sent2 where
        s2: "calls st2 = calls st1 @ sent2" "\<forall>c \<in> set sent2. isPagesCreate c"
        by (auto simp: logLine_def)
      have "calls st' = calls st2"
        using assms Pair Inr True p2
        by (auto simp: addNonDuplicateRecords_def logLine_def split: sum.splits if_splits)
      with s1 s2 show ?thesis
        by auto
    qed
  qed
qed

lemma createRequest_defined:
  assumes "fst ` set e \<subseteq> dom sp"
  shows "createRequest sp e \<noteq> None"
proof -
  from buildPagePayload_loop_returns [OF assms, of "[]" "[]"] obtain props children where
    "buildPagePayload_loop e sp [] [] = Inr (props, children)"
    by blast
  then show ?thesis
    by (simp add: createRequest_def buildPagePayload_def)
qed

lemma requests_exist:
  assumes "\<forall>e \<in> set data. fst ` set e \<subseteq> dom sp"
  shows "\<exists>requests. map (createRequest sp) data = map Some requests"
  using assms
proof (induction data)
  case Nil
  show ?case by simp
next
  case (Cons e data)
  then obtain requests where r: "map (createRequest sp) data = map Some requests"
    by auto
  from Cons.prems have "fst ` set e \<subseteq> dom sp"
    by simp
  from createRequest_defined [OF this] obtain c where c: "createRequest sp e = Some c"
    by blast
  from r c have "map (createRequest sp) (e # data) = map Some (c # requests)"
    by simp
  then show ?case ..
qed

text \<open>
  Steps 12 to 17 with the option \<^verbatim>\<open>"3"\<close>: no query is sent, and when the first read of
  the schema succeeds and every field of the documents is a header, the create requests
  of all documents are sent, in order, followed by nothing but retries.
\<close>

lemma mainExport_option_3_no_query:
  assumes "mainExport notion data headers titleField [] ''3'' st = Some final"
  shows "\<exists>sent. calls final = calls st @ sent \<and> (\<forall>c \<in> set sent. \<not> isDatabasesQuery c)"
proof (cases "databases_retrieve notion (calls st)")
  case (Inl e)
  with assms have "final = logLine (ErrorGeneral (ApiError e)) (issue DatabasesRetrieve st)"
    by (simp add: mainExport_def)
  then show ?thesis
    by (simp add: logLine_def issue_def)
next
  case (Inr cur)
  from assms Inr obtain mapOption st1 where
    o: "optionLoop [''1'', ''2''] (issue DatabasesRetrieve st) = Some (mapOption, st1)"
    by (auto simp: mainExport_def split: option.splits)
  from assms Inr o obtain sp st2 where
    m: "mapProperties headers cur mapOption titleField st1 = Some (sp, st2)"
    by (auto simp: mainExport_def split: option.splits)
  obtain np st3 where e: "ensurePropertiesExist notion headers sp st2 = (np, st3)"
    by (cases "ensurePropertiesExist notion headers sp st2")
  obtain r st4 where a: "addNonDuplicateRecords notion data sp st3 = (r, st4)"
    by (cases "addNonDuplicateRecords notion data sp st3")
  have f: "calls final = calls st4"
    using assms Inr o m e a
    by (auto simp: mainExport_def exportToNotion_def logLine_def
             split: sum.splits)
  have c1: "calls st1 = calls st @ [DatabasesRetrieve]"
    using optionLoop_calls [OF o] by (simp add: issue_def)
  have c2: "calls st2 = calls st1"
    using m mapProperties_loop_calls_dom by (simp add: mapProperties_def)
  from ensurePropertiesExist_calls [OF e] obtain sent3 where
    c3: "calls st3 = calls st2 @ sent3" "\<forall>c \<in> set sent3. \<not> isDatabasesQuery c" by blast
  from addNonDuplicateRecords_only_creates [OF a] obtain sent4 where
    c4: "calls st4 = calls st3 @ sent4" "\<forall>c \<in> set sent4. isPagesCreate c" by blast
  have "\<forall>c \<in> set sent4. \<not> isDatabasesQuery c"
  proof
    fix c assume "c \<in> set sent4"
    with c4(2) have "isPagesCreate c" by blast
    then show "\<not> isDatabasesQuery c" by (cases c) simp_all
  qed
  with f c1 c2 c3 c4 show ?thesis
    by auto
qed

lemma mainExport_option_3_creates:
  assumes "mainExport notion data headers titleField [] ''3'' st = Some final"
    and "\<forall>e \<in> set data. fst ` set e \<subseteq> set headers"
    and "databases_retrieve notion (calls st) = Inr cur"
  shows "\<exists>sp requests before after.
           map (createRequest sp) data = map Some requests
           \<and> calls final = before @ requests @ after \<and> set after \<subseteq> set requests"
proof -
  from assms(1,3) obtain mapOption st1 where
    o: "optionLoop [''1'', ''2''] (issue DatabasesRetrieve st) = Some (mapOption, st1)"
    by (auto simp: mainExport_def split: option.splits)
  from assms(1,3) o obtain sp st2 where
    m: "mapProperties headers cur mapOption titleField st1 = Some (sp, st2)"
    by (auto simp: mainExport_def split: option.splits)
  obtain np st3 where e: "ensurePropertiesExist notion headers sp st2 = (np, st3)"
    by (cases "ensurePropertiesExist notion headers sp st2")
  have "dom sp = set headers"
    using m mapProperties_loop_calls_dom [of headers cur mapOption titleField Map.empty st1 sp st2]
    by (simp add: mapProperties_def)
  with assms(2) have "\<forall>e \<in> set data. fst ` set e \<subseteq> dom sp"
    by simp
  from requests_exist [OF this] obtain requests where
    r: "map (createRequest sp) data = map Some requests" by blast
  from addNonDuplicateRecords_calls [OF r, of notion st3] obtain st4 retried where
    a: "addNonDuplicateRecords notion data sp st3 = (Inr (), st4)"
       "calls st4 = calls st3 @ requests @ retried" "set retried \<subseteq> set requests"
    by blast
  have "final = st4"
    using assms(1,3) o m e a(1)
    by (simp add: mainExport_def exportToNotion_def)
  with r a(2,3) show ?thesis
    by blast
qed

text \<open>
  C10. When the option typed is 1 or 2 and no field of the answer, trimmed, is both
  non-empty and a header, \<^verbatim>\<open>main\<close> prints one warning and goes on as it does for the
  option 3 with no field to check: nothing more is asked about duplicates and no error is
  raised. The export is then \<^verbatim>\<open>addNonDuplicateRecords\<close> on all the documents. In
  such a run that returns, no query is sent to Notion (no index is built), and, when
  the schema can be read and every field of the documents is a header, the create
  requests of all the documents are sent, in order, followed by nothing but retries.
\<close>

theorem C10_no_valid_field_forces_option_3:
  assumes "duplicateOption = ''1'' \<or> duplicateOption = ''2''"
    and "filter (\<lambda>f. f \<in> set headers) (filter (\<lambda>f. f \<noteq> []) (map trim (split_comma answer))) = []"
  shows "main notion data headers titleField (st\<lparr>stdin := duplicateOption # answer # rest\<rparr>)
           = mainExport notion data headers titleField [] ''3''
               (logLine WarnNoValidFields (st\<lparr>stdin := rest\<rparr>))
       \<and> exportToNotion notion data selectedProperties [] ''3'' newProperties st'
           = Some (addNonDuplicateRecords notion data selectedProperties st')
       \<and> (\<forall>final.
             main notion data headers titleField (st\<lparr>stdin := duplicateOption # answer # rest\<rparr>)
               = Some final \<longrightarrow>
             (\<exists>sent. calls final = calls st @ sent \<and> (\<forall>c \<in> set sent. \<not> isDatabasesQuery c))
             \<and> ((\<forall>e \<in> set data. fst ` set e \<subseteq> set headers)
                  \<and> (\<exists>cur. databases_retrieve notion (calls st) = Inr cur) \<longrightarrow>
                 (\<exists>sp requests before after.
                    map (createRequest sp) data = map Some requests
                    \<and> calls final = before @ requests @ after
                    \<and> set after \<subseteq> set requests)))"
proof -
  let ?st0 = "st\<lparr>stdin := duplicateOption # answer # rest\<rparr>"
  let ?st2 = "logLine WarnNoValidFields (st\<lparr>stdin := rest\<rparr>)"
  have t: "trim duplicateOption \<in> set [''1'', ''2'', ''3'']"
    using assms(1) by (auto simp: trim_def isWhiteSpace_def)
  have o: "optionLoop [''1'', ''2'', ''3''] ?st0 = Some (duplicateOption, st\<lparr>stdin := answer # rest\<rparr>)"
    using t by (subst optionLoop.simps) (simp add: askQuestion_def)
  have d: "askDuplicateCheckFields headers duplicateOption (st\<lparr>stdin := answer # rest\<rparr>)
           = Some (([], ''3''), ?st2)"
    using assms by (simp add: askDuplicateCheckFields_def askQuestion_def Let_def)
  have m: "main notion data headers titleField ?st0
           = mainExport notion data headers titleField [] ''3'' ?st2"
    using o d by (simp add: main_def)
  have c: "calls ?st2 = calls st"
    by (simp add: logLine_def)
  have q: "\<exists>sent. calls final = calls st @ sent \<and> (\<forall>c \<in> set sent. \<not> isDatabasesQuery c)"
    if "main notion data headers titleField ?st0 = Some final" for final
    using mainExport_option_3_no_query [of notion data headers titleField ?st2 final] that m c
    by simp
  have r: "\<exists>sp requests before after.
             map (createRequest sp) data = map Some requests
             \<and> calls final = before @ requests @ after \<and> set after \<subseteq> set requests"
    if "main notion data headers titleField ?st0 = Some final"
      and "\<forall>e \<in> set data. fst ` set e \<subseteq> set headers"
      and "\<exists>cur. databases_retrieve notion (calls st) = Inr cur" for final
  proof -
    from that(3) obtain cur where "databases_retrieve notion (calls ?st2) = Inr cur"
      using c by auto
    from mainExport_option_3_creates [OF _ that(2) this] that(1) m
    show ?thesis by simp
  qed
  have e: "exportToNotion notion data selectedProperties [] ''3'' newProperties st'
           = Some (addNonDuplicateRecords notion data selectedProperties st')"
    by (simp add: exportToNotion_def)
  show ?thesis
  proof (intro conjI allI impI)
    show "main notion data headers titleField ?st0
          = mainExport notion data headers titleField [] ''3'' ?st2"
      by (rule m)
    show "exportToNotion notion data selectedProperties [] ''3'' newProperties st'
          = Some (addNonDuplicateRecords notion data selectedProperties st')"
      by (rule e)
  next
    fix final
    assume "main notion data headers titleField ?st0 = Some final"
    then show "\<exists>sent. calls final = calls st @ sent \<and> (\<forall>c \<in> set sent. \<not> isDatabasesQuery c)"
      by (rule q)
  next
    fix final
    assume f: "main notion data headers titleField ?st0 = Some final"
      and h: "(\<forall>e \<in> set data. fst ` set e \<subseteq> set headers)
              \<and> (\<exists>cur. databases_retrieve notion (calls st) = Inr cur)"
    from h have h1: "\<forall>e \<in> set data. fst ` set e \<subseteq> set headers"
      and h2: "\<exists>cur. databases_retrieve notion (calls st) = Inr cur"
      by blast+
    show "\<exists>sp requests before after.
            map (createRequest sp) data = map Some requests
            \<and> calls final = before @ requests @ after \<and> set after \<subseteq> set requests"
      by (rule r [OF f h1 h2])
  qed
qed

text \<open>
  C10 at the option 2 with the answer \<^verbatim>\<open>" phone , ,fax"\<close>, none of which is a header:
  the warning is printed, no query is sent, and the document is created.
\<close>

theorem C10_no_valid_field_forces_option_3_witness:
  "(''2'' = ''1'' \<or> ''2'' = ''2'')
   \<and> map trim (split_comma '' phone , ,fax'') = [''phone'', [], ''fax'']
   \<and> filter (\<lambda>f. f \<in> set [''name'']) (filter (\<lambda>f. f \<noteq> []) (map trim (split_comma '' phone , ,fax''))) = []
   \<and> main acceptingNotion aliceOnly [''name''] ''name'' (typing [''2'', '' phone , ,fax'', ''1''])
       = Some \<lparr>stdin = [],
               console = [WarnNoValidFields],
               calls = [DatabasesRetrieve, DatabasesRetrieve,
                        DatabasesUpdate [(''name'', ''title'')],
                        PagesCreate [(''name'', PTitle ''Alice'')] []]\<rparr>"
  using C10_no_valid_field_forces_option_3
          [where duplicateOption = "''2''" and headers = "[''name'']"
             and answer = "'' phone , ,fax''" and notion = acceptingNotion
             and data = aliceOnly and titleField = "''name''"
             and st = "typing []" and rest = "[''1'']"]
  by (simp add: acceptingNotion_def aliceOnly_def typing_def trim_def isWhiteSpace_def
        mainExport_def askQuestion_def issue_def logLine_def optionLoop.simps
        mapProperties_def mapProperty_def ensurePropertiesExist_def spread_def
        exportToNotion_def addNonDuplicateRecords_def buildPagePayload_def
        buildPropertyPayload_def stringValue_of_def)

end
